theory Spec2Isabelle
  imports Main "HOL-Library.Word"
begin

section \<open>The keyframe parser of nao\_pos\_server (parser.cpp)\<close>

text \<open>
  The development embeds \<^verbatim>\<open>parser::split\<close> and \<^verbatim>\<open>parser::parse\<close> of
  \<^verbatim>\<open>src/nao_pos_server/src/parser.cpp\<close>. A \<^verbatim>\<open>std::string\<close> is a \<open>string\<close> (a list of
  8-bit characters), \<^verbatim>\<open>unsigned\<close> is a \<open>32 word\<close>, \<^verbatim>\<open>uint8_t\<close> an \<open>8 word\<close>, \<^verbatim>\<open>int\<close> a
  32-bit two's complement integer. The three ways in which a call of \<^verbatim>\<open>parse\<close> can end
  (a returned \<^verbatim>\<open>ParseResult\<close>, an exception that no handler of \<^verbatim>\<open>parse\<close> catches, a
  violated library precondition) are the constructors of \<open>outcome\<close>.
\<close>

subsection \<open>Library functions used by the parser\<close>

text \<open>\<^verbatim>\<open>isspace\<close> and \<^verbatim>\<open>isdigit\<close> in the C locale.\<close>

definition isspace :: "char \<Rightarrow> bool" where
  "isspace c = (let n = (of_char c :: nat) in n = 32 \<or> (9 \<le> n \<and> n \<le> 13))"

definition isdigit :: "char \<Rightarrow> bool" where
  "isdigit c = (let n = (of_char c :: nat) in 48 \<le> n \<and> n \<le> 57)"

definition isxdigit :: "char \<Rightarrow> bool" where
  "isxdigit c = (let n = (of_char c :: nat) in
     (48 \<le> n \<and> n \<le> 57) \<or> (65 \<le> n \<and> n \<le> 70) \<or> (97 \<le> n \<and> n \<le> 102))"

definition is_nchar :: "char \<Rightarrow> bool" where
  \<comment> \<open>a digit, a letter or the underscore: the characters of an n-char-sequence\<close>
  "is_nchar c = (let n = (of_char c :: nat) in
     (48 \<le> n \<and> n \<le> 57) \<or> (65 \<le> n \<and> n \<le> 90) \<or> (97 \<le> n \<and> n \<le> 122) \<or> n = 95)"

text \<open>
  The result of \<^verbatim>\<open>std::stoi\<close> and \<^verbatim>\<open>std::stof\<close>: the converted value, or one of the two
  exceptions they throw.
\<close>

datatype 'a conv = Converted 'a | InvalidArgument | OutOfRange

fun dec_value :: "nat \<Rightarrow> string \<Rightarrow> nat" where
  "dec_value acc [] = acc"
| "dec_value acc (c # cs) = dec_value (10 * acc + (of_char c - 48)) cs"

definition sign_prefix :: "string \<Rightarrow> string" where
  "sign_prefix s = (case s of [] \<Rightarrow> [] | c # _ \<Rightarrow> if c = CHR ''-'' \<or> c = CHR ''+'' then [c] else [])"

definition stoi :: "string \<Rightarrow> int conv" where
  \<comment> \<open>\<^verbatim>\<open>std::stoi(str)\<close>: \<^verbatim>\<open>strtol\<close> in base 10 on the longest prefix that is a number (after
      leading white space); \<^verbatim>\<open>invalid_argument\<close> when there is no digit, \<^verbatim>\<open>out_of_range\<close>
      when the value does not fit \<^verbatim>\<open>int\<close>. What follows the digits is ignored.\<close>
  "stoi str =
     (let s = dropWhile isspace str;
          sg = sign_prefix s;
          ds = takeWhile isdigit (drop (length sg) s)
      in if ds = [] then InvalidArgument
         else let v = (if sg = ''-'' then - int (dec_value 0 ds) else int (dec_value 0 ds))
              in if v < - (2 ^ 31) \<or> 2 ^ 31 - 1 < v then OutOfRange else Converted v)"

definition isupper :: "char \<Rightarrow> bool" where
  "isupper c = (let n = (of_char c :: nat) in 65 \<le> n \<and> n \<le> 90)"

fun ci_prefix :: "string \<Rightarrow> string \<Rightarrow> bool" where
  \<comment> \<open>the pattern (lower-case letters and digits) is a prefix of the string, letter case
      ignored: a character matches itself, and an upper-case letter its lower-case letter\<close>
  "ci_prefix [] s = True"
| "ci_prefix (p # ps) [] = False"
| "ci_prefix (p # ps) (c # cs) =
     ((c = p \<or> (isupper c \<and> (of_char c :: nat) + 32 = of_char p)) \<and> ci_prefix ps cs)"

definition exponent_part :: "string \<Rightarrow> string \<Rightarrow> string" where
  \<comment> \<open>an exponent: one of the marker letters, an optional sign, at least one decimal digit;
      the empty string when the text does not start with one\<close>
  "exponent_part markers s =
     (case s of [] \<Rightarrow> []
      | e # r \<Rightarrow>
          if e \<in> set markers then
            (let sg = sign_prefix r; ds = takeWhile isdigit (drop (length sg) r)
             in if ds = [] then [] else e # sg @ ds)
          else [])"

definition mantissa :: "(char \<Rightarrow> bool) \<Rightarrow> string \<Rightarrow> string" where
  \<comment> \<open>digits with an optional radix point, at least one digit; the empty string otherwise\<close>
  "mantissa dig s =
     (let d1 = takeWhile dig s; r = drop (length d1) s
      in case r of
           [] \<Rightarrow> d1
         | c # r' \<Rightarrow>
             if c = CHR ''.'' then
               (let d2 = takeWhile dig r' in if d1 = [] \<and> d2 = [] then [] else d1 @ c # d2)
             else d1)"

definition nan_part :: "string \<Rightarrow> string" where
  \<comment> \<open>the text starts with NAN: the optional parenthesised n-char-sequence\<close>
  "nan_part s =
     (let r = drop 3 s
      in case r of
           [] \<Rightarrow> take 3 s
         | c # r' \<Rightarrow>
             if c = CHR ''(''
             then (let ns = takeWhile is_nchar r'
                   in case drop (length ns) r' of
                        [] \<Rightarrow> take 3 s
                      | d # _ \<Rightarrow> if d = CHR '')'' then take 3 s @ c # ns @ [d] else take 3 s)
             else take 3 s)"

definition unsigned_subject :: "string \<Rightarrow> string" where
  "unsigned_subject s =
     (if ci_prefix ''infinity'' s then take 8 s
      else if ci_prefix ''inf'' s then take 3 s
      else if ci_prefix ''nan'' s then nan_part s
      else if ci_prefix ''0x'' s \<and> mantissa isxdigit (drop 2 s) \<noteq> [] then
        (let m = mantissa isxdigit (drop 2 s)
         in take 2 s @ m @ exponent_part ''pP'' (drop (2 + length m) s))
      else
        (let m = mantissa isdigit s
         in if m = [] then [] else m @ exponent_part ''eE'' (drop (length m) s)))"

definition strtof_subject :: "string \<Rightarrow> string option" where
  \<comment> \<open>the subject sequence of \<^verbatim>\<open>strtof\<close>: the longest prefix, after leading white space, that
      has the form of a floating-point number (decimal, hexadecimal, infinity or NaN), with
      its sign; \<open>None\<close> when no conversion can be performed\<close>
  "strtof_subject str =
     (let s = dropWhile isspace str;
          sg = sign_prefix s;
          u = unsigned_subject (drop (length sg) s)
      in if u = [] then None else Some (sg @ u))"

text \<open>
  Floating-point arithmetic is not modelled: the type \<open>'f\<close> of \<^verbatim>\<open>float\<close> values and the
  three operations on it that \<^verbatim>\<open>parse\<close> uses are parameters. \<open>strtof_val\<close> gives the
  \<^verbatim>\<open>float\<close> that \<^verbatim>\<open>strtof\<close> returns for a subject sequence, \<open>None\<close> when it reports
  \<^verbatim>\<open>ERANGE\<close>; \<open>deg_to_rad\<close> is \<^verbatim>\<open>position_deg * M_PI / 180\<close> stored to a \<^verbatim>\<open>float\<close>;
  \<open>float_one\<close> is the \<^verbatim>\<open>float\<close> \<^verbatim>\<open>1.0\<close>.
\<close>

record 'f float_ops =
  strtof_val :: "string \<Rightarrow> 'f option"
  deg_to_rad :: "'f \<Rightarrow> 'f"
  float_one :: "'f"

definition stof :: "'f float_ops \<Rightarrow> string \<Rightarrow> 'f conv" where
  \<comment> \<open>\<^verbatim>\<open>std::stof(str)\<close>: \<^verbatim>\<open>invalid_argument\<close> when \<^verbatim>\<open>strtof\<close> converts nothing,
      \<^verbatim>\<open>out_of_range\<close> on \<^verbatim>\<open>ERANGE\<close>. What follows the subject sequence is ignored.\<close>
  "stof ops str =
     (case strtof_subject str of
        None \<Rightarrow> InvalidArgument
      | Some lit \<Rightarrow> (case strtof_val ops lit of None \<Rightarrow> OutOfRange | Some v \<Rightarrow> Converted v))"

definition at :: "'a list \<Rightarrow> nat \<Rightarrow> 'a option" where
  \<comment> \<open>\<^verbatim>\<open>std::vector::at\<close>: \<open>None\<close> stands for the \<^verbatim>\<open>std::out_of_range\<close> it throws\<close>
  "at xs i = (if i < length xs then Some (xs ! i) else None)"

definition front :: "string \<Rightarrow> char option" where
  \<comment> \<open>\<^verbatim>\<open>std::string::front\<close> requires a non-empty string: \<open>None\<close> is the violated
      precondition\<close>
  "front s = (case s of [] \<Rightarrow> None | c # _ \<Rightarrow> Some c)"

definition back_elem :: "'a list \<Rightarrow> 'a option" where
  \<comment> \<open>\<^verbatim>\<open>std::vector::back\<close> requires a non-empty vector\<close>
  "back_elem xs = (if xs = [] then None else Some (last xs))"

subsection \<open>split\<close>

fun split_from :: "string \<Rightarrow> string \<Rightarrow> string list" where
  \<comment> \<open>\<^verbatim>\<open>istream_iterator<std::string>\<close>: each extraction skips white space and reads up
      to the next white space; the first argument is the token read so far\<close>
  "split_from w [] = (if w = [] then [] else [w])"
| "split_from w (c # cs) =
     (if isspace c then (if w = [] then split_from [] cs else w # split_from [] cs)
      else split_from (w @ [c]) cs)"

definition split :: "string \<Rightarrow> string list" where
  "split line = split_from [] line"

subsection \<open>Messages and results\<close>

text \<open>
  Modelled from the spec: the message types \<^verbatim>\<open>JointPositions\<close> and \<^verbatim>\<open>JointStiffnesses\<close>
  (package nao\_lola\_command\_msgs) and the structs \<^verbatim>\<open>KeyFrame\<close> and \<^verbatim>\<open>ParseResult\<close>
  (parser.hpp) are declared outside src/. Their fields are the ones parser.cpp reads and
  writes: parallel sequences of \<^verbatim>\<open>uint8_t\<close> indexes and \<^verbatim>\<open>float\<close> values; a key frame built
  from the cumulative time, the positions and the stiffnesses; a result with the flag
  \<^verbatim>\<open>successful\<close> and the vector \<^verbatim>\<open>keyFrames\<close>.
\<close>

record 'f JointPositions =
  p_indexes :: "8 word list"
  positions :: "'f list"

record 'f JointStiffnesses =
  s_indexes :: "8 word list"
  stiffnesses :: "'f list"

record 'f KeyFrame =
  absolute_time :: "32 word"
  kf_positions :: "'f JointPositions"
  kf_stiffnesses :: "'f JointStiffnesses"

record 'f ParseResult =
  successful :: bool
  keyFrames :: "'f KeyFrame list"

text \<open>
  \<^verbatim>\<open>parse\<close> reports a rejected line by \<^verbatim>\<open>successful = false\<close> and one
  \<^verbatim>\<open>RCLCPP_ERROR\<close> message. The constructors of \<open>failure\<close> name the messages after the
  error taxonomy of the specification: the two size checks (with the actual and the
  expected number of elements), the two \<^verbatim>\<open>stof\<close> handlers (with the offending token), the
  comparison with the previous position line, the \<^verbatim>\<open>stoi\<close> handler, and the two
  comparisons of position and stiffness indexes.
\<close>

datatype failure =
    MalformedLine nat nat
  | InvalidNumericField string
  | InvalidDuration string
  | InconsistentJointSet
  | StiffnessPositionMismatch

datatype 'f outcome =
    Returned "'f ParseResult" "failure option"
      \<comment> \<open>\<^verbatim>\<open>parse\<close> returned this result, having logged this error (if any)\<close>
  | Threw_out_of_range
      \<comment> \<open>a \<^verbatim>\<open>std::out_of_range\<close> left \<^verbatim>\<open>parse\<close>: its handlers catch \<^verbatim>\<open>std::invalid_argument\<close> only\<close>
  | Undefined_behaviour
      \<comment> \<open>a library precondition was violated\<close>

subsection \<open>parse\<close>

text \<open>The local variables of \<^verbatim>\<open>parse\<close> that live across the lines.\<close>

record 'f parse_state =
  parseResult_keyFrames :: "'f KeyFrame list"
  keyFrameTime :: "32 word"
  jointStiffnesses :: "'f JointStiffnesses"
  customStiffnesses :: bool
  firstPosLine :: bool
  prevJointPositions :: "'f JointPositions"

abbreviation init_state :: "'f parse_state" where
  "init_state \<equiv>
     \<lparr>parseResult_keyFrames = [], keyFrameTime = 0,
      jointStiffnesses = \<lparr>s_indexes = [], stiffnesses = []\<rparr>,
      customStiffnesses = False, firstPosLine = True,
      prevJointPositions = \<lparr>p_indexes = [], positions = []\<rparr>\<rparr>"

definition fail :: "failure \<Rightarrow> 'f parse_state \<Rightarrow> 'f outcome" where
  \<comment> \<open>\<^verbatim>\<open>parseResult.successful = false; return parseResult;\<close> once the error is logged\<close>
  "fail f st = Returned \<lparr>successful = False, keyFrames = parseResult_keyFrames st\<rparr> (Some f)"

text \<open>
  The two size checks report through \<^verbatim>\<open>RCLCPP_ERROR_STREAM\<close> and the three comparisons of
  index vectors through \<^verbatim>\<open>RCLCPP_ERROR\<close> with a literal message. The three handlers of
  \<^verbatim>\<open>std::invalid_argument\<close> build the message from the rejected token and pass it to
  \<^verbatim>\<open>RCLCPP_ERROR\<close> as the \<^verbatim>\<open>printf\<close> format, with no argument after it: the call is
  defined only when the message holds no conversion specification other than \<^verbatim>\<open>%%\<close>.
\<close>

fun no_conversion :: "string \<Rightarrow> bool" where
  \<comment> \<open>a \<^verbatim>\<open>printf\<close> format that needs no argument: up to the terminating NUL of
      \<^verbatim>\<open>c_str()\<close>, every \<^verbatim>\<open>%\<close> is followed by a second \<^verbatim>\<open>%\<close>\<close>
  "no_conversion [] = True"
| "no_conversion [c] = (c \<noteq> CHR ''%'')"
| "no_conversion (c # d # cs) =
     (if c = CHR 0x00 then True
      else if c = CHR ''%'' then d = CHR ''%'' \<and> no_conversion cs
      else no_conversion (d # cs))"

definition RCLCPP_ERROR_format :: "string \<Rightarrow> 'f outcome \<Rightarrow> 'f outcome" where
  \<comment> \<open>\<^verbatim>\<open>RCLCPP_ERROR(logger, message.c_str())\<close>, then what follows it\<close>
  "RCLCPP_ERROR_format message out = (if no_conversion message then out else Undefined_behaviour)"

definition stiffness_message :: "string \<Rightarrow> string" where
  "stiffness_message stiffness_string =
     ''stiffness value '' @ [CHR 0x27] @ stiffness_string @ [CHR 0x27] @
     '' is not a valid stiffness value (cannot be converted to float)''"

definition joint_message :: "string \<Rightarrow> string" where
  "joint_message position_deg_string =
     ''joint value '' @ [CHR 0x27] @ position_deg_string @ [CHR 0x27] @
     '' is not a valid joint value (cannot be converted to float)''"

definition duration_message :: "string \<Rightarrow> string" where
  "duration_message duration_string =
     ''duration '' @ [CHR 0x27] @ duration_string @ [CHR 0x27] @
     '' is not a valid duration value (cannot be converted to int)''"

definition push_stiffness :: "nat \<Rightarrow> 'f \<Rightarrow> 'f JointStiffnesses \<Rightarrow> 'f JointStiffnesses" where
  \<comment> \<open>\<^verbatim>\<open>indexes.push_back(i - 1); stiffnesses.push_back(v);\<close>\<close>
  "push_stiffness i v js =
     js\<lparr>s_indexes := s_indexes js @ [of_nat (i - 1)], stiffnesses := stiffnesses js @ [v]\<rparr>"

definition push_position :: "nat \<Rightarrow> 'f \<Rightarrow> 'f JointPositions \<Rightarrow> 'f JointPositions" where
  "push_position i v jp =
     jp\<lparr>p_indexes := p_indexes jp @ [of_nat (i - 1)], positions := positions jp @ [v]\<rparr>"

fun stiffness_loop ::
  "'f float_ops \<Rightarrow> string list \<Rightarrow> nat list \<Rightarrow> 'f parse_state \<Rightarrow> 'f outcome + 'f parse_state"
where
  \<comment> \<open>the loop over \<^verbatim>\<open>i\<close> of the stiffness branch; the third argument holds the values
      that \<^verbatim>\<open>i\<close> has still to take\<close>
  "stiffness_loop ops splitted_line [] st = Inr st"
| "stiffness_loop ops splitted_line (i # is) st =
     (case at splitted_line i of
        None \<Rightarrow> Inl Threw_out_of_range
      | Some stiffness_string \<Rightarrow>
          if stiffness_string \<noteq> ''-'' then
            (case stof ops stiffness_string of
               Converted stiffness_float \<Rightarrow>
                 stiffness_loop ops splitted_line is
                   (st\<lparr>jointStiffnesses := push_stiffness i stiffness_float (jointStiffnesses st)\<rparr>)
             | InvalidArgument \<Rightarrow>
                 Inl (RCLCPP_ERROR_format (stiffness_message stiffness_string)
                        (fail (InvalidNumericField stiffness_string) st))
             | OutOfRange \<Rightarrow> Inl Threw_out_of_range)
          else stiffness_loop ops splitted_line is st)"

fun position_loop ::
  "'f float_ops \<Rightarrow> string list \<Rightarrow> nat list \<Rightarrow> 'f JointPositions \<Rightarrow> 'f parse_state \<Rightarrow>
     'f outcome + 'f JointPositions \<times> 'f parse_state"
where
  \<comment> \<open>the loop over \<^verbatim>\<open>i\<close> of the position branch\<close>
  "position_loop ops splitted_line [] jointPositions st = Inr (jointPositions, st)"
| "position_loop ops splitted_line (i # is) jointPositions st =
     (case at splitted_line i of
        None \<Rightarrow> Inl Threw_out_of_range
      | Some position_deg_string \<Rightarrow>
          if position_deg_string \<noteq> ''-'' then
            (case stof ops position_deg_string of
               Converted position_deg \<Rightarrow>
                 position_loop ops splitted_line is
                   (push_position i (deg_to_rad ops position_deg) jointPositions)
                   (if \<not> customStiffnesses st
                    then st\<lparr>jointStiffnesses :=
                              push_stiffness i (float_one ops) (jointStiffnesses st)\<rparr>
                    else st)
             | InvalidArgument \<Rightarrow>
                 Inl (RCLCPP_ERROR_format (joint_message position_deg_string)
                        (fail (InvalidNumericField position_deg_string) st))
             | OutOfRange \<Rightarrow> Inl Threw_out_of_range)
          else position_loop ops splitted_line is jointPositions st)"

fun indexes_differ :: "8 word list \<Rightarrow> 8 word list \<Rightarrow> nat list \<Rightarrow> bool option" where
  \<comment> \<open>the loop comparing \<^verbatim>\<open>jointPositions.indexes.at(i)\<close> with
      \<^verbatim>\<open>jointStiffnesses.indexes.at(i)\<close>; \<open>None\<close> when \<^verbatim>\<open>at\<close> throws\<close>
  "indexes_differ ps ss [] = Some False"
| "indexes_differ ps ss (i # is) =
     (case (at ps i, at ss i) of
        (Some p, Some s) \<Rightarrow> if p \<noteq> s then Some True else indexes_differ ps ss is
      | _ \<Rightarrow> None)"

definition stiffness_line ::
  "'f float_ops \<Rightarrow> nat \<Rightarrow> string \<Rightarrow> 'f parse_state \<Rightarrow> 'f outcome + 'f parse_state"
where
  \<comment> \<open>the branch \<^verbatim>\<open>line.front() == '$'\<close>\<close>
  "stiffness_line ops NUMJOINTS line st =
     (let splitted_line = split line
      in if length splitted_line \<noteq> NUMJOINTS + 1
         then Inl (fail (MalformedLine (length splitted_line) (NUMJOINTS + 1)) st)
         else stiffness_loop ops splitted_line [1..<NUMJOINTS + 1]
                (st\<lparr>customStiffnesses := True\<rparr>))"

definition emit_key_frame :: "'f JointPositions \<Rightarrow> 'f parse_state \<Rightarrow> 'f parse_state" where
  \<comment> \<open>\<^verbatim>\<open>keyFrames.push_back\<close>, then the four assignments that end the position branch\<close>
  "emit_key_frame jointPositions st =
     st\<lparr>parseResult_keyFrames :=
          parseResult_keyFrames st @
            [\<lparr>absolute_time = keyFrameTime st, kf_positions = jointPositions,
              kf_stiffnesses = jointStiffnesses st\<rparr>],
        prevJointPositions := jointPositions,
        jointStiffnesses := \<lparr>s_indexes = [], stiffnesses = []\<rparr>,
        customStiffnesses := False\<rparr>"

definition check_stiffnesses ::
  "'f JointPositions \<Rightarrow> 'f parse_state \<Rightarrow> 'f outcome + 'f parse_state"
where
  \<comment> \<open>the block \<^verbatim>\<open>if (customStiffnesses) { ... }\<close> and what follows it\<close>
  "check_stiffnesses jointPositions st =
     (if customStiffnesses st then
        (if length (p_indexes jointPositions) \<noteq> length (s_indexes (jointStiffnesses st))
         then Inl (fail StiffnessPositionMismatch st)
         else
           (case indexes_differ (p_indexes jointPositions) (s_indexes (jointStiffnesses st))
                   [0..<length (p_indexes jointPositions)] of
              None \<Rightarrow> Inl Threw_out_of_range
            | Some True \<Rightarrow> Inl (fail StiffnessPositionMismatch st)
            | Some False \<Rightarrow> Inr (emit_key_frame jointPositions st)))
      else Inr (emit_key_frame jointPositions st))"

definition add_duration ::
  "string list \<Rightarrow> 'f JointPositions \<Rightarrow> 'f parse_state \<Rightarrow> 'f outcome + 'f parse_state"
where
  \<comment> \<open>the block under \<^verbatim>\<open>// add the duration of the Keyframe\<close> and what follows it;
      \<^verbatim>\<open>keyFrameTime += duration\<close> converts the \<^verbatim>\<open>int\<close> to \<^verbatim>\<open>unsigned\<close>\<close>
  "add_duration splitted_line jointPositions st =
     (case back_elem splitted_line of
        None \<Rightarrow> Inl Undefined_behaviour
      | Some duration_string \<Rightarrow>
          (case stoi duration_string of
             Converted duration \<Rightarrow>
               check_stiffnesses jointPositions
                 (st\<lparr>keyFrameTime := keyFrameTime st + word_of_int duration\<rparr>)
           | InvalidArgument \<Rightarrow>
               Inl (RCLCPP_ERROR_format (duration_message duration_string)
                      (fail (InvalidDuration duration_string) st))
           | OutOfRange \<Rightarrow> Inl Threw_out_of_range))"

definition position_line ::
  "'f float_ops \<Rightarrow> nat \<Rightarrow> string \<Rightarrow> 'f parse_state \<Rightarrow> 'f outcome + 'f parse_state"
where
  \<comment> \<open>the branch \<^verbatim>\<open>line.front() == '!'\<close>\<close>
  "position_line ops NUMJOINTS line st =
     (let splitted_line = split line
      in if length splitted_line \<noteq> NUMJOINTS + 2
         then Inl (fail (MalformedLine (length splitted_line) (NUMJOINTS + 2)) st)
         else
           (case position_loop ops splitted_line [1..<NUMJOINTS + 1]
                   \<lparr>p_indexes = [], positions = []\<rparr> st of
              Inl out \<Rightarrow> Inl out
            | Inr (jointPositions, st1) \<Rightarrow>
                if firstPosLine st1
                then add_duration splitted_line jointPositions (st1\<lparr>firstPosLine := False\<rparr>)
                else if p_indexes jointPositions \<noteq> p_indexes (prevJointPositions st1)
                then Inl (fail InconsistentJointSet st1)
                else add_duration splitted_line jointPositions st1))"

definition parse_line ::
  "'f float_ops \<Rightarrow> nat \<Rightarrow> string \<Rightarrow> 'f parse_state \<Rightarrow> 'f outcome + 'f parse_state"
where
  \<comment> \<open>the body of \<^verbatim>\<open>for (const auto & line : in)\<close>\<close>
  "parse_line ops NUMJOINTS line st =
     (case front line of
        None \<Rightarrow> Inl Undefined_behaviour
      | Some c \<Rightarrow>
          if c = CHR ''$'' then stiffness_line ops NUMJOINTS line st
          else if c = CHR ''!'' then position_line ops NUMJOINTS line st
          else Inr st)"

fun for_each_line ::
  "'f float_ops \<Rightarrow> nat \<Rightarrow> string list \<Rightarrow> 'f parse_state \<Rightarrow> 'f outcome + 'f parse_state"
where
  "for_each_line ops NUMJOINTS [] st = Inr st"
| "for_each_line ops NUMJOINTS (line # rest) st =
     (case parse_line ops NUMJOINTS line st of
        Inl out \<Rightarrow> Inl out
      | Inr st' \<Rightarrow> for_each_line ops NUMJOINTS rest st')"

definition parse :: "'f float_ops \<Rightarrow> nat \<Rightarrow> string list \<Rightarrow> 'f outcome" where
  \<comment> \<open>\<^verbatim>\<open>parse(in)\<close>, for a message package whose \<^verbatim>\<open>JointIndexes::NUMJOINTS\<close> is the
      second argument\<close>
  "parse ops NUMJOINTS inp =
     (case for_each_line ops NUMJOINTS inp init_state of
        Inl out \<Rightarrow> out
      | Inr st \<Rightarrow> Returned \<lparr>successful = True, keyFrames = parseResult_keyFrames st\<rparr> None)"

subsection \<open>Notions used to state the properties\<close>

text \<open>
  A line is a position directive or a stiffness directive by its first character. The value
  fields of a directive are the tokens at the positions \<open>1 .. NUMJOINTS\<close>; the joints a line
  sets are the fields that are not the sentinel \<open>-\<close>.
\<close>

definition is_position :: "string \<Rightarrow> bool" where
  "is_position line = (front line = Some CHR ''!'')"

definition is_stiffness :: "string \<Rightarrow> bool" where
  "is_stiffness line = (front line = Some CHR ''$'')"

definition set_indexes :: "string list \<Rightarrow> nat list \<Rightarrow> 8 word list" where
  \<comment> \<open>the joint indexes (token position minus one, as \<^verbatim>\<open>uint8_t\<close>) of the fields that are set\<close>
  "set_indexes toks is = map (\<lambda>i. of_nat (i - 1)) (filter (\<lambda>i. toks ! i \<noteq> ''-'') is)"

definition converted :: "'f float_ops \<Rightarrow> string list \<Rightarrow> nat list \<Rightarrow> 'f list" where
  \<comment> \<open>the values \<^verbatim>\<open>std::stof\<close> returns for the fields that are set\<close>
  "converted ops toks is =
     concat (map (\<lambda>i. case stof ops (toks ! i) of Converted v \<Rightarrow> [v] | _ \<Rightarrow> [])
                 (filter (\<lambda>i. toks ! i \<noteq> ''-'') is))"

definition convertible :: "'f float_ops \<Rightarrow> string list \<Rightarrow> nat list \<Rightarrow> bool" where
  \<comment> \<open>every field is there and is the sentinel or a token that \<^verbatim>\<open>std::stof\<close> converts\<close>
  "convertible ops toks is =
     list_all (\<lambda>i. i < length toks \<and>
                 (toks ! i = ''-'' \<or> (case stof ops (toks ! i) of Converted _ \<Rightarrow> True | _ \<Rightarrow> False))) is"

definition line_indexes :: "nat \<Rightarrow> string \<Rightarrow> 8 word list" where
  "line_indexes NUMJOINTS line = set_indexes (split line) [1..<NUMJOINTS + 1]"

definition line_values :: "'f float_ops \<Rightarrow> nat \<Rightarrow> string \<Rightarrow> 'f list" where
  "line_values ops NUMJOINTS line = converted ops (split line) [1..<NUMJOINTS + 1]"

definition line_convertible :: "'f float_ops \<Rightarrow> nat \<Rightarrow> string \<Rightarrow> bool" where
  "line_convertible ops NUMJOINTS line = convertible ops (split line) [1..<NUMJOINTS + 1]"

definition duration_of :: "string \<Rightarrow> int" where
  \<comment> \<open>the duration \<^verbatim>\<open>std::stoi\<close> reads from the last token of a line\<close>
  "duration_of line = (case stoi (last (split line)) of Converted d \<Rightarrow> d | _ \<Rightarrow> 0)"

definition has_duration :: "string \<Rightarrow> bool" where
  "has_duration line = (case stoi (last (split line)) of Converted d \<Rightarrow> True | _ \<Rightarrow> False)"

definition line_positions :: "'f float_ops \<Rightarrow> nat \<Rightarrow> string \<Rightarrow> 'f JointPositions" where
  "line_positions ops NUMJOINTS line =
     \<lparr>p_indexes = line_indexes NUMJOINTS line,
      positions = map (deg_to_rad ops) (line_values ops NUMJOINTS line)\<rparr>"

text \<open>The key frame that a position line adds in a given state, and the state it leaves.\<close>

definition emitted_key_frame :: "'f float_ops \<Rightarrow> nat \<Rightarrow> string \<Rightarrow> 'f parse_state \<Rightarrow> 'f KeyFrame" where
  "emitted_key_frame ops NUMJOINTS line st =
     \<lparr>absolute_time = keyFrameTime st + word_of_int (duration_of line),
      kf_positions = line_positions ops NUMJOINTS line,
      kf_stiffnesses =
        (if customStiffnesses st then jointStiffnesses st
         else \<lparr>s_indexes = s_indexes (jointStiffnesses st) @ line_indexes NUMJOINTS line,
               stiffnesses = stiffnesses (jointStiffnesses st) @
                 replicate (length (line_indexes NUMJOINTS line)) (float_one ops)\<rparr>)\<rparr>"

definition after_position :: "'f float_ops \<Rightarrow> nat \<Rightarrow> string \<Rightarrow> 'f parse_state \<Rightarrow> 'f parse_state" where
  "after_position ops NUMJOINTS line st =
     st\<lparr>parseResult_keyFrames :=
          parseResult_keyFrames st @ [emitted_key_frame ops NUMJOINTS line st],
        keyFrameTime := keyFrameTime st + word_of_int (duration_of line),
        jointStiffnesses := \<lparr>s_indexes = [], stiffnesses = []\<rparr>,
        customStiffnesses := False,
        firstPosLine := False,
        prevJointPositions := line_positions ops NUMJOINTS line\<rparr>"

definition reportable :: "'f float_ops \<Rightarrow> failure \<Rightarrow> bool" where
  \<comment> \<open>a token is reported as an invalid numeric field only if \<^verbatim>\<open>std::stof\<close> throws
      \<^verbatim>\<open>std::invalid_argument\<close> on it\<close>
  "reportable ops f =
     (case f of InvalidNumericField t \<Rightarrow> stof ops t = InvalidArgument | _ \<Rightarrow> True)"

definition position_lines :: "string list \<Rightarrow> string list" where
  \<comment> \<open>the position directives of an input, in order\<close>
  "position_lines inp = filter is_position inp"

definition pending_stiffness_lines :: "string list \<Rightarrow> string list" where
  \<comment> \<open>the stiffness directives that follow the last position directive of an input\<close>
  "pending_stiffness_lines inp =
     rev (filter is_stiffness (takeWhile (\<lambda>l. \<not> is_position l) (rev inp)))"

definition durations :: "string list \<Rightarrow> int list" where
  "durations inp = map duration_of (position_lines inp)"

definition cumulative_time :: "string list \<Rightarrow> nat \<Rightarrow> int" where
  \<comment> \<open>the sum of the durations of the position directives \<open>0 .. k\<close>\<close>
  "cumulative_time inp k = sum_list (take (Suc k) (durations inp))"

subsection \<open>Example inputs\<close>

text \<open>
  To evaluate \<^verbatim>\<open>parse\<close> on concrete lines, \<^verbatim>\<open>float\<close> values are kept symbolic: a value is
  the result of \<^verbatim>\<open>strtof\<close> on a subject sequence, the result of the conversion to radians, or
  the constant \<^verbatim>\<open>1.0\<close>. No literal of the examples is out of the range of \<^verbatim>\<open>float\<close>, and
  \<open>sym_ops\<close> reports no \<^verbatim>\<open>ERANGE\<close>.

  The constant \<^verbatim>\<open>JointIndexes::NUMJOINTS\<close> belongs to the message package
  nao\_lola\_command\_msgs, not to src/, and is a parameter of \<open>parse\<close>. The examples use 25
  joints, the number of entries of the vector \<^verbatim>\<open>stiffnessMax\<close> in parser.cpp: a stiffness
  line has 26 tokens and a position line 27.
\<close>

datatype sym_float = Strtof string | MulPiDiv180 sym_float | OnePointZero

definition sym_ops :: "sym_float float_ops" where
  "sym_ops = \<lparr>strtof_val = (\<lambda>s. Some (Strtof s)), deg_to_rad = MulPiDiv180, float_one = OnePointZero\<rparr>"

definition nao_joints :: nat where
  "nao_joints = 25"

definition pos_90_300 :: string where
  "pos_90_300 = ''! 90 -90 - - - - - - - - - - - - - - - - - - - - - - - 300''"

definition pos_45_200 :: string where
  "pos_45_200 = ''! 45 -45 - - - - - - - - - - - - - - - - - - - - - - - 200''"

definition pos_45_back :: string where
  "pos_45_back = ''! 45 -45 - - - - - - - - - - - - - - - - - - - - - - - -100''"

definition pos_90_minus :: string where
  "pos_90_minus = ''! 90 -90 - - - - - - - - - - - - - - - - - - - - - - - -1''"

definition pos_90_500 :: string where
  "pos_90_500 = ''! 90 -90 - - - - - - - - - - - - - - - - - - - - - - - 500''"

definition pos_trailing :: string where
  "pos_trailing = ''! 1.5abc - - - - - - - - - - - - - - - - - - - - - - - - 100''"

definition pos_percent :: string where
  "pos_percent = ''! %s - - - - - - - - - - - - - - - - - - - - - - - - 500''"

definition pos_abc :: string where
  "pos_abc = ''! 90 abc - - - - - - - - - - - - - - - - - - - - - - - 500''"

definition pos_one_joint :: string where
  "pos_one_joint = ''! 90 - - - - - - - - - - - - - - - - - - - - - - - - 200''"

definition stiff_short :: string where
  "stiff_short = ''$ 0.5''"

definition stiff_head :: string where
  "stiff_head = ''$ 0.5 - - - - - - - - - - - - - - - - - - - - - - - -''"

definition stiff_neck :: string where
  "stiff_neck = ''$ - 0.7 - - - - - - - - - - - - - - - - - - - - - - -''"

definition comment_line :: string where
  "comment_line = ''# arms up''"

definition kf_two_joints :: "32 word \<Rightarrow> string \<Rightarrow> string \<Rightarrow> sym_float KeyFrame" where
  "kf_two_joints t a b =
     \<lparr>absolute_time = t,
      kf_positions = \<lparr>p_indexes = [0, 1],
                      positions = [MulPiDiv180 (Strtof a), MulPiDiv180 (Strtof b)]\<rparr>,
      kf_stiffnesses = \<lparr>s_indexes = [0, 1], stiffnesses = [OnePointZero, OnePointZero]\<rparr>\<rparr>"

section \<open>Properties\<close>

subsection \<open>The two loops over the value fields\<close>

lemma fail_simps [simp]:
  "fail f (st\<lparr>jointStiffnesses := js\<rparr>) = fail f st"
  "fail f (st\<lparr>customStiffnesses := b\<rparr>) = fail f st"
  "fail f (st\<lparr>firstPosLine := b\<rparr>) = fail f st"
  "fail f (st\<lparr>keyFrameTime := t\<rparr>) = fail f st"
  by (simp_all add: fail_def)

lemma no_percent_no_conversion: "CHR ''%'' \<notin> set s \<Longrightarrow> no_conversion s"
  by (induction s rule: no_conversion.induct) auto

lemma messages_without_percent:
  assumes "CHR ''%'' \<notin> set s"
  shows "no_conversion (stiffness_message s)"
    and "no_conversion (joint_message s)"
    and "no_conversion (duration_message s)"
  using assms
  by (auto intro!: no_percent_no_conversion
           simp: stiffness_message_def joint_message_def duration_message_def)

lemma RCLCPP_ERROR_format_cases:
  "RCLCPP_ERROR_format message out = out \<or> RCLCPP_ERROR_format message out = Undefined_behaviour"
  by (simp add: RCLCPP_ERROR_format_def)

lemma reportable_simps [simp]:
  "reportable ops (MalformedLine a b)"
  "reportable ops (InvalidDuration t)"
  "reportable ops InconsistentJointSet"
  "reportable ops StiffnessPositionMismatch"
  "reportable ops (InvalidNumericField t) \<longleftrightarrow> stof ops t = InvalidArgument"
  by (simp_all add: reportable_def)

lemma convertible_Nil [simp]: "convertible ops toks []"
  by (simp add: convertible_def)

lemma convertible_Cons:
  "convertible ops toks (i # is) \<longleftrightarrow>
     i < length toks \<and> (toks ! i = ''-'' \<or> (\<exists>v. stof ops (toks ! i) = Converted v)) \<and>
     convertible ops toks is"
  by (auto simp: convertible_def split: conv.splits)

lemma convertible_append:
  "convertible ops toks (xs @ ys) \<longleftrightarrow> convertible ops toks xs \<and> convertible ops toks ys"
  by (simp add: convertible_def)

lemma stiffness_loop_Inr:
  "stiffness_loop ops toks is st = Inr st' \<longleftrightarrow>
     convertible ops toks is \<and>
     st' = st\<lparr>jointStiffnesses :=
               \<lparr>s_indexes = s_indexes (jointStiffnesses st) @ set_indexes toks is,
                stiffnesses = stiffnesses (jointStiffnesses st) @ converted ops toks is\<rparr>\<rparr>"
proof (induction "is" arbitrary: st)
  case Nil
  show ?case by (auto simp: set_indexes_def converted_def)
next
  case (Cons i "is")
  show ?case
    by (auto simp: Cons.IH convertible_Cons at_def set_indexes_def converted_def push_stiffness_def
             split: conv.splits)
qed

lemma stiffness_loop_Inl:
  "stiffness_loop ops toks is st = Inl out \<Longrightarrow>
     out = Threw_out_of_range \<or> out = Undefined_behaviour \<or>
     (\<exists>i \<in> set is. out = fail (InvalidNumericField (toks ! i)) st \<and>
                     stof ops (toks ! i) = InvalidArgument)"
proof (induction "is" arbitrary: st)
  case Nil
  then show ?case by simp
next
  case (Cons i "is")
  then show ?case
    by (fastforce simp: at_def RCLCPP_ERROR_format_def split: if_splits conv.splits)
qed

lemma position_loop_Inr:
  "position_loop ops toks is jp st = Inr res \<longleftrightarrow>
     convertible ops toks is \<and>
     res = (\<lparr>p_indexes = p_indexes jp @ set_indexes toks is,
             positions = positions jp @ map (deg_to_rad ops) (converted ops toks is)\<rparr>,
            if customStiffnesses st then st
            else st\<lparr>jointStiffnesses :=
               \<lparr>s_indexes = s_indexes (jointStiffnesses st) @ set_indexes toks is,
                stiffnesses = stiffnesses (jointStiffnesses st) @
                   replicate (length (set_indexes toks is)) (float_one ops)\<rparr>\<rparr>)"
proof (induction "is" arbitrary: jp st)
  case Nil
  show ?case by (auto simp: set_indexes_def converted_def)
next
  case (Cons i "is")
  show ?case
    by (auto simp: Cons.IH convertible_Cons at_def set_indexes_def converted_def push_stiffness_def
                   push_position_def replicate_app_Cons_same
             split: conv.splits)
qed

lemma position_loop_Inl:
  "position_loop ops toks is jp st = Inl out \<Longrightarrow>
     out = Threw_out_of_range \<or> out = Undefined_behaviour \<or>
     (\<exists>i \<in> set is. out = fail (InvalidNumericField (toks ! i)) st \<and>
                     stof ops (toks ! i) = InvalidArgument)"
proof (induction "is" arbitrary: jp st)
  case Nil
  then show ?case by simp
next
  case (Cons i "is")
  then show ?case
    by (fastforce simp: at_def RCLCPP_ERROR_format_def split: if_splits conv.splits)
qed

lemma stiffness_loop_first_invalid:
  assumes "convertible ops toks js" and "i < length toks" and "toks ! i \<noteq> ''-''"
    and "stof ops (toks ! i) = InvalidArgument"
    and "no_conversion (stiffness_message (toks ! i))"
  shows "stiffness_loop ops toks (js @ i # ks) st = Inl (fail (InvalidNumericField (toks ! i)) st)"
  using assms
proof (induction js arbitrary: st)
  case Nil
  then show ?case by (simp add: at_def RCLCPP_ERROR_format_def)
next
  case (Cons j js)
  from Cons.prems(1) have j: "j < length toks"
    and tok: "toks ! j = ''-'' \<or> (\<exists>v. stof ops (toks ! j) = Converted v)"
    and rest: "convertible ops toks js"
    by (simp_all add: convertible_Cons)
  from tok show ?case
  proof
    assume "toks ! j = ''-''"
    with j Cons.IH [OF rest Cons.prems(2-5)] show ?thesis by (simp add: at_def)
  next
    assume "\<exists>v. stof ops (toks ! j) = Converted v"
    then obtain v where "stof ops (toks ! j) = Converted v" ..
    with j Cons.IH [OF rest Cons.prems(2-5)] show ?thesis by (simp add: at_def)
  qed
qed

lemma position_loop_first_invalid:
  assumes "convertible ops toks js" and "i < length toks" and "toks ! i \<noteq> ''-''"
    and "stof ops (toks ! i) = InvalidArgument"
    and "no_conversion (joint_message (toks ! i))"
  shows "position_loop ops toks (js @ i # ks) jp st = Inl (fail (InvalidNumericField (toks ! i)) st)"
  using assms
proof (induction js arbitrary: jp st)
  case Nil
  then show ?case by (simp add: at_def RCLCPP_ERROR_format_def)
next
  case (Cons j js)
  from Cons.prems(1) have j: "j < length toks"
    and tok: "toks ! j = ''-'' \<or> (\<exists>v. stof ops (toks ! j) = Converted v)"
    and rest: "convertible ops toks js"
    by (simp_all add: convertible_Cons)
  from tok show ?case
  proof
    assume "toks ! j = ''-''"
    with j Cons.IH [OF rest Cons.prems(2-5)] show ?thesis by (simp add: at_def)
  next
    assume "\<exists>v. stof ops (toks ! j) = Converted v"
    then obtain v where "stof ops (toks ! j) = Converted v" ..
    with j Cons.IH [OF rest Cons.prems(2-5)] show ?thesis by (simp add: at_def)
  qed
qed

lemma position_loop_first_out_of_range:
  assumes "convertible ops toks js" and "i < length toks" and "toks ! i \<noteq> ''-''"
    and "stof ops (toks ! i) = OutOfRange"
  shows "position_loop ops toks (js @ i # ks) jp st = Inl Threw_out_of_range"
  using assms
proof (induction js arbitrary: jp st)
  case Nil
  then show ?case by (simp add: at_def)
next
  case (Cons j js)
  from Cons.prems(1) have j: "j < length toks"
    and tok: "toks ! j = ''-'' \<or> (\<exists>v. stof ops (toks ! j) = Converted v)"
    and rest: "convertible ops toks js"
    by (simp_all add: convertible_Cons)
  from tok show ?case
  proof
    assume "toks ! j = ''-''"
    with j Cons.IH [OF rest Cons.prems(2-4)] show ?thesis by (simp add: at_def)
  next
    assume "\<exists>v. stof ops (toks ! j) = Converted v"
    then obtain v where "stof ops (toks ! j) = Converted v" ..
    with j Cons.IH [OF rest Cons.prems(2-4)] show ?thesis by (simp add: at_def)
  qed
qed

lemma value_positions_split:
  assumes "1 \<le> i" and "i \<le> nj"
  shows "[1..<nj + 1] = [1..<i] @ i # [Suc i..<nj + 1]"
proof -
  have "[1..<i + (nj + 1 - i)] = [1..<i] @ [i..<i + (nj + 1 - i)]"
    using assms by (intro upt_add_eq_append) simp
  then have "[1..<nj + 1] = [1..<i] @ [i..<nj + 1]"
    using assms by simp
  moreover have "[i..<nj + 1] = i # [Suc i..<nj + 1]"
    using assms by (simp add: upt_conv_Cons)
  ultimately show ?thesis by simp
qed

lemma indexes_differ_eq:
  "set is \<subseteq> {..<length ps} \<Longrightarrow> length ps = length ss \<Longrightarrow>
     indexes_differ ps ss is = Some (\<exists>i \<in> set is. ps ! i \<noteq> ss ! i)"
  by (induction "is") (auto simp: at_def)

lemma indexes_differ_all:
  assumes "length ps = length ss"
  shows "indexes_differ ps ss [0..<length ps] = Some (ps \<noteq> ss)"
proof -
  have "indexes_differ ps ss [0..<length ps] = Some (\<exists>i \<in> set [0..<length ps]. ps ! i \<noteq> ss ! i)"
    by (rule indexes_differ_eq) (use assms in auto)
  moreover have "(\<exists>i \<in> set [0..<length ps]. ps ! i \<noteq> ss ! i) \<longleftrightarrow> ps \<noteq> ss"
    using assms list_eq_iff_nth_eq [of ps ss] by auto
  ultimately show ?thesis by simp
qed

subsection \<open>One line\<close>

lemma stiffness_line_Inr:
  "stiffness_line ops nj line st = Inr st' \<longleftrightarrow>
     length (split line) = nj + 1 \<and> line_convertible ops nj line \<and>
     st' = st\<lparr>customStiffnesses := True,
              jointStiffnesses :=
               \<lparr>s_indexes = s_indexes (jointStiffnesses st) @ line_indexes nj line,
                stiffnesses = stiffnesses (jointStiffnesses st) @ line_values ops nj line\<rparr>\<rparr>"
  by (auto simp: stiffness_line_def Let_def stiffness_loop_Inr line_convertible_def
                 line_indexes_def line_values_def)

lemma stiffness_line_Inl:
  "stiffness_line ops nj line st = Inl out \<Longrightarrow>
     out = Threw_out_of_range \<or> out = Undefined_behaviour \<or>
     (\<exists>f. out = fail f st \<and> reportable ops f)"
proof (cases "length (split line) = nj + 1")
  case False
  assume "stiffness_line ops nj line st = Inl out"
  with False have "out = fail (MalformedLine (length (split line)) (nj + 1)) st"
    by (simp add: stiffness_line_def)
  then show ?thesis by auto
next
  case True
  assume "stiffness_line ops nj line st = Inl out"
  with True have "stiffness_loop ops (split line) [1..<nj + 1] (st\<lparr>customStiffnesses := True\<rparr>) = Inl out"
    by (simp add: stiffness_line_def del: upt_Suc)
  from stiffness_loop_Inl [OF this] show ?thesis
    by (elim disjE bexE) (auto intro!: exI [of _ "InvalidNumericField _"])
qed

lemma check_stiffnesses_eq:
  "check_stiffnesses jp st =
     (if customStiffnesses st \<and> p_indexes jp \<noteq> s_indexes (jointStiffnesses st)
      then Inl (fail StiffnessPositionMismatch st)
      else Inr (emit_key_frame jp st))"
proof (cases "length (p_indexes jp) = length (s_indexes (jointStiffnesses st))")
  case True
  show ?thesis
    unfolding check_stiffnesses_def indexes_differ_all [OF True] by simp
next
  case False
  then have "p_indexes jp \<noteq> s_indexes (jointStiffnesses st)" by auto
  with False show ?thesis by (simp add: check_stiffnesses_def)
qed

lemma add_duration_eq:
  "splitted_line \<noteq> [] \<Longrightarrow>
   add_duration splitted_line jp st =
     (case stoi (last splitted_line) of
        Converted d \<Rightarrow>
          (if customStiffnesses st \<and> p_indexes jp \<noteq> s_indexes (jointStiffnesses st)
           then Inl (fail StiffnessPositionMismatch st)
           else Inr (emit_key_frame jp (st\<lparr>keyFrameTime := keyFrameTime st + word_of_int d\<rparr>)))
      | InvalidArgument \<Rightarrow>
          Inl (RCLCPP_ERROR_format (duration_message (last splitted_line))
                 (fail (InvalidDuration (last splitted_line)) st))
      | OutOfRange \<Rightarrow> Inl Threw_out_of_range)"
  by (auto simp: add_duration_def back_elem_def check_stiffnesses_eq fail_def split: conv.splits)

lemma position_line_convertible:
  assumes len: "length (split line) = nj + 2"
    and conv: "line_convertible ops nj line"
  shows "position_line ops nj line st =
     (if \<not> firstPosLine st \<and> line_indexes nj line \<noteq> p_indexes (prevJointPositions st)
      then Inl (fail InconsistentJointSet st)
      else case stoi (last (split line)) of
             InvalidArgument \<Rightarrow>
               Inl (RCLCPP_ERROR_format (duration_message (last (split line)))
                      (fail (InvalidDuration (last (split line))) st))
           | OutOfRange \<Rightarrow> Inl Threw_out_of_range
           | Converted d \<Rightarrow>
               if customStiffnesses st \<and> line_indexes nj line \<noteq> s_indexes (jointStiffnesses st)
               then Inl (fail StiffnessPositionMismatch st)
               else Inr (after_position ops nj line st))"
proof -
  from len have ne: "split line \<noteq> []" by auto
  let ?st1 = "if customStiffnesses st then st
            else st\<lparr>jointStiffnesses :=
               \<lparr>s_indexes = s_indexes (jointStiffnesses st) @ line_indexes nj line,
                stiffnesses = stiffnesses (jointStiffnesses st) @
                   replicate (length (line_indexes nj line)) (float_one ops)\<rparr>\<rparr>"
  have loop: "position_loop ops (split line) [1..<nj + 1] \<lparr>p_indexes = [], positions = []\<rparr> st =
       Inr (line_positions ops nj line, ?st1)"
    using conv
    by (simp add: position_loop_Inr line_convertible_def line_positions_def line_indexes_def
                  line_values_def)
  have pl: "position_line ops nj line st =
        (if firstPosLine ?st1
         then add_duration (split line) (line_positions ops nj line) (?st1\<lparr>firstPosLine := False\<rparr>)
         else if p_indexes (line_positions ops nj line) \<noteq> p_indexes (prevJointPositions ?st1)
         then Inl (fail InconsistentJointSet ?st1)
         else add_duration (split line) (line_positions ops nj line) ?st1)"
    unfolding position_line_def Let_def loop using len by simp
  have idx: "p_indexes (line_positions ops nj line) = line_indexes nj line"
    by (simp add: line_positions_def)
  show ?thesis
  proof (cases "customStiffnesses st")
    case True
    then show ?thesis
      unfolding pl add_duration_eq [OF ne] idx
      by (simp add: after_position_def emitted_key_frame_def emit_key_frame_def duration_of_def
               split: conv.splits)
  next
    case False
    then show ?thesis
      unfolding pl add_duration_eq [OF ne] idx
      by (simp add: after_position_def emitted_key_frame_def emit_key_frame_def duration_of_def fail_def
               split: conv.splits)
  qed
qed

lemma position_line_Inr:
  "position_line ops nj line st = Inr st' \<longleftrightarrow>
     length (split line) = nj + 2 \<and> line_convertible ops nj line \<and>
     (firstPosLine st \<or> line_indexes nj line = p_indexes (prevJointPositions st)) \<and>
     has_duration line \<and>
     (customStiffnesses st \<longrightarrow> s_indexes (jointStiffnesses st) = line_indexes nj line) \<and>
     st' = after_position ops nj line st"
proof (cases "length (split line) = nj + 2")
  case False
  then show ?thesis by (simp add: position_line_def)
next
  case len: True
  show ?thesis
  proof (cases "line_convertible ops nj line")
    case False
    then have "position_loop ops (split line) [1..<nj + 1] \<lparr>p_indexes = [], positions = []\<rparr> st \<noteq> Inr res"
      for res
      by (simp add: position_loop_Inr line_convertible_def)
    then obtain out where
      "position_loop ops (split line) [1..<nj + 1] \<lparr>p_indexes = [], positions = []\<rparr> st = Inl out"
      by (cases "position_loop ops (split line) [1..<nj + 1] \<lparr>p_indexes = [], positions = []\<rparr> st")
         auto
    with False len show ?thesis
      by (simp add: position_line_def del: upt_Suc)
  next
    case True
    show ?thesis
      unfolding position_line_convertible [OF len True]
      using len True by (auto simp: has_duration_def split: conv.splits)
  qed
qed

lemma position_line_Inl:
  assumes "position_line ops nj line st = Inl out"
  shows "out = Threw_out_of_range \<or> out = Undefined_behaviour \<or>
         (\<exists>f. out = fail f st \<and> reportable ops f)"
proof (cases "length (split line) = nj + 2")
  case False
  with assms have "out = fail (MalformedLine (length (split line)) (nj + 2)) st"
    by (simp add: position_line_def)
  then show ?thesis by auto
next
  case len: True
  show ?thesis
  proof (cases "position_loop ops (split line) [1..<nj + 1] \<lparr>p_indexes = [], positions = []\<rparr> st")
    case (Inl o1)
    with assms len have "out = o1" by (simp add: position_line_def del: upt_Suc)
    with position_loop_Inl [OF Inl] show ?thesis
      by (elim disjE bexE) (auto intro!: exI [of _ "InvalidNumericField _"])
  next
    case (Inr res)
    then have "line_convertible ops nj line"
      by (simp add: position_loop_Inr line_convertible_def)
    from assms [unfolded position_line_convertible [OF len this]]
    consider "out = fail InconsistentJointSet st"
      | "out = RCLCPP_ERROR_format (duration_message (last (split line)))
                 (fail (InvalidDuration (last (split line))) st)"
      | "out = Threw_out_of_range"
      | "out = fail StiffnessPositionMismatch st"
      by (auto split: if_splits conv.splits)
    then show ?thesis
    proof cases
      case 2
      with RCLCPP_ERROR_format_cases [of "duration_message (last (split line))"
          "fail (InvalidDuration (last (split line))) st"]
      show ?thesis by auto
    qed auto
  qed
qed

lemma parse_line_Inl:
  "parse_line ops nj line st = Inl out \<Longrightarrow>
     out = Threw_out_of_range \<or> out = Undefined_behaviour \<or>
     (\<exists>f. out = fail f st \<and> reportable ops f)"
  by (auto simp: parse_line_def split: option.splits if_splits
           dest: position_line_Inl stiffness_line_Inl)

lemma parse_line_Inr:
  "parse_line ops nj line st = Inr st' \<longleftrightarrow>
     (is_stiffness line \<and> stiffness_line ops nj line st = Inr st') \<or>
     (is_position line \<and> position_line ops nj line st = Inr st') \<or>
     (line \<noteq> [] \<and> \<not> is_stiffness line \<and> \<not> is_position line \<and> st' = st)"
  by (auto simp: parse_line_def is_stiffness_def is_position_def front_def split: list.splits)

lemma not_both: "is_position l \<Longrightarrow> \<not> is_stiffness l"
  by (auto simp: is_position_def is_stiffness_def)

lemma after_position_simps [simp]:
  "parseResult_keyFrames (after_position ops nj l st) =
     parseResult_keyFrames st @ [emitted_key_frame ops nj l st]"
  "keyFrameTime (after_position ops nj l st) = keyFrameTime st + word_of_int (duration_of l)"
  "jointStiffnesses (after_position ops nj l st) = \<lparr>s_indexes = [], stiffnesses = []\<rparr>"
  "customStiffnesses (after_position ops nj l st) = False"
  "firstPosLine (after_position ops nj l st) = False"
  "prevJointPositions (after_position ops nj l st) = line_positions ops nj l"
  by (simp_all add: after_position_def)

lemma emitted_key_frame_simps [simp]:
  "absolute_time (emitted_key_frame ops nj l st) = keyFrameTime st + word_of_int (duration_of l)"
  "kf_positions (emitted_key_frame ops nj l st) = line_positions ops nj l"
  by (simp_all add: emitted_key_frame_def)

subsection \<open>The loop over the lines\<close>

lemma for_each_line_append:
  "for_each_line ops nj (xs @ ys) st =
     (case for_each_line ops nj xs st of
        Inl out \<Rightarrow> Inl out
      | Inr st' \<Rightarrow> for_each_line ops nj ys st')"
  by (induction xs arbitrary: st) (auto split: sum.splits)

lemma for_each_line_snoc_Inr:
  "for_each_line ops nj (xs @ [l]) st = Inr st' \<longleftrightarrow>
     (\<exists>st1. for_each_line ops nj xs st = Inr st1 \<and> parse_line ops nj l st1 = Inr st')"
  by (auto simp: for_each_line_append split: sum.splits)

lemma for_each_line_Inl:
  "for_each_line ops nj inp st = Inl out \<Longrightarrow>
     out = Threw_out_of_range \<or> out = Undefined_behaviour \<or>
     (\<exists>n st' f. n < length inp \<and> for_each_line ops nj (take n inp) st = Inr st' \<and>
                parse_line ops nj (inp ! n) st' = Inl out \<and>
                out = fail f st' \<and> reportable ops f)"
proof (induction inp arbitrary: st)
  case Nil
  then show ?case by simp
next
  case (Cons l ls)
  show ?case
  proof (cases "parse_line ops nj l st")
    case (Inl o1)
    with Cons.prems have out: "out = o1" by simp
    from parse_line_Inl [OF Inl] show ?thesis
    proof (elim disjE exE conjE)
      fix f
      assume "o1 = fail f st" "reportable ops f"
      with Inl out have "0 < length (l # ls) \<and>
          for_each_line ops nj (take 0 (l # ls)) st = Inr st \<and>
          parse_line ops nj ((l # ls) ! 0) st = Inl out \<and> out = fail f st \<and> reportable ops f"
        by simp
      then show ?thesis by blast
    qed (auto simp: out)
  next
    case (Inr st1)
    with Cons.prems have "for_each_line ops nj ls st1 = Inl out" by simp
    from Cons.IH [OF this] show ?thesis
    proof (elim disjE exE conjE)
      fix n st' f
      assume "n < length ls" "for_each_line ops nj (take n ls) st1 = Inr st'"
        "parse_line ops nj (ls ! n) st' = Inl out" "out = fail f st'" "reportable ops f"
      then have "Suc n < length (l # ls) \<and>
                 for_each_line ops nj (take (Suc n) (l # ls)) st = Inr st' \<and>
                 parse_line ops nj ((l # ls) ! Suc n) st' = Inl out \<and>
                 out = fail f st' \<and> reportable ops f"
        using Inr by simp
      then show ?thesis by blast
    qed auto
  qed
qed

lemma parse_success_iff:
  "parse ops nj inp = Returned r e \<and> successful r \<longleftrightarrow>
     (\<exists>st. for_each_line ops nj inp init_state = Inr st \<and>
           r = \<lparr>successful = True, keyFrames = parseResult_keyFrames st\<rparr> \<and> e = None)"
proof (cases "for_each_line ops nj inp init_state")
  case (Inl out)
  from for_each_line_Inl [OF Inl] have "\<not> (out = Returned r e \<and> successful r)"
    by (auto simp: fail_def)
  with Inl show ?thesis by (simp add: parse_def)
next
  case (Inr st)
  then show ?thesis by (auto simp: parse_def)
qed

lemma parse_failure_iff:
  "parse ops nj inp = Returned r e \<and> \<not> successful r \<longleftrightarrow>
     (\<exists>f out. for_each_line ops nj inp init_state = Inl (Returned r (Some f)) \<and> e = Some f \<and>
        \<not> successful r)"
proof (cases "for_each_line ops nj inp init_state")
  case (Inl out)
  from for_each_line_Inl [OF Inl] show ?thesis
    using Inl by (auto simp: parse_def fail_def)
next
  case (Inr st)
  then show ?thesis by (auto simp: parse_def)
qed

lemma parse_append_failure:
  assumes "for_each_line ops nj pre init_state = Inr st"
    and "parse_line ops nj line st = Inl out"
  shows "parse ops nj (pre @ line # rest) = out"
  using assms by (simp add: parse_def for_each_line_append)

lemma parse_snoc_success:
  assumes "for_each_line ops nj pre init_state = Inr st"
    and "parse_line ops nj line st = Inr st'"
  shows "parse ops nj (pre @ [line]) =
           Returned \<lparr>successful = True, keyFrames = parseResult_keyFrames st'\<rparr> None"
  using assms by (simp add: parse_def for_each_line_append)

lemma stof_InvalidArgument_iff:
  "stof ops t = InvalidArgument \<longleftrightarrow> strtof_subject t = None"
  by (simp add: stof_def split: option.splits)

lemma reported_token_rejected:
  assumes "parse ops nj inp = Returned r (Some (InvalidNumericField t))"
  shows "stof ops t = InvalidArgument"
proof (cases "for_each_line ops nj inp init_state")
  case (Inl out)
  with assms have "out = Returned r (Some (InvalidNumericField t))"
    by (simp add: parse_def)
  with for_each_line_Inl [OF Inl] obtain f st' where
    "Returned r (Some (InvalidNumericField t)) = fail f st'" and "reportable ops f"
    by auto
  then show ?thesis by (auto simp: fail_def)
next
  case (Inr st)
  with assms show ?thesis by (simp add: parse_def)
qed

lemma pending_snoc:
  "pending_stiffness_lines (xs @ [l]) =
     (if is_position l then []
      else if is_stiffness l then pending_stiffness_lines xs @ [l]
      else pending_stiffness_lines xs)"
  by (simp add: pending_stiffness_lines_def)

lemma pending_Nil [simp]: "pending_stiffness_lines [] = []"
  by (simp add: pending_stiffness_lines_def)

lemma position_lines_snoc:
  "position_lines (xs @ [l]) = (if is_position l then position_lines xs @ [l] else position_lines xs)"
  by (simp add: position_lines_def)

lemma durations_snoc:
  "durations (xs @ [l]) = (if is_position l then durations xs @ [duration_of l] else durations xs)"
  by (simp add: durations_def position_lines_snoc)

lemma cumulative_time_snoc:
  "k < length (durations xs) \<Longrightarrow> cumulative_time (xs @ [l]) k = cumulative_time xs k"
  by (simp add: cumulative_time_def durations_snoc)

lemma cumulative_time_last:
  "is_position l \<Longrightarrow>
     cumulative_time (xs @ [l]) (length (position_lines xs)) = sum_list (durations xs) + duration_of l"
  by (simp add: cumulative_time_def durations_snoc) (simp add: durations_def)

text \<open>
  The state after the lines of an input have been processed without failure, in terms of the
  input alone.
\<close>

lemma run_state:
  assumes "for_each_line ops nj inp init_state = Inr st"
  shows "keyFrameTime st = word_of_int (sum_list (durations inp))"
    and "customStiffnesses st = (pending_stiffness_lines inp \<noteq> [])"
    and "s_indexes (jointStiffnesses st) = concat (map (line_indexes nj) (pending_stiffness_lines inp))"
    and "stiffnesses (jointStiffnesses st) =
           concat (map (line_values ops nj) (pending_stiffness_lines inp))"
    and "firstPosLine st = (position_lines inp = [])"
    and "position_lines inp \<noteq> [] \<longrightarrow>
           prevJointPositions st = line_positions ops nj (last (position_lines inp))"
    and "map kf_positions (parseResult_keyFrames st) =
           map (line_positions ops nj) (position_lines inp)"
    and "map absolute_time (parseResult_keyFrames st) =
           map (\<lambda>k. word_of_int (cumulative_time inp k)) [0..<length (position_lines inp)]"
  using assms
proof (induction inp arbitrary: st rule: rev_induct)
  case Nil
  {
    case 1 then show ?case by (auto simp: durations_def position_lines_def)
  next
    case 2 then show ?case by auto
  next
    case 3 then show ?case by auto
  next
    case 4 then show ?case by auto
  next
    case 5 then show ?case by (auto simp: position_lines_def)
  next
    case 6 then show ?case by (auto simp: position_lines_def)
  next
    case 7 then show ?case by (auto simp: position_lines_def)
  next
    case 8 then show ?case by (auto simp: position_lines_def)
  }
next
  case (snoc l xs)
  {
    case 1
    then obtain st1 where run: "for_each_line ops nj xs init_state = Inr st1"
      and step: "parse_line ops nj l st1 = Inr st"
      by (auto simp: for_each_line_snoc_Inr)
    from step show ?case
      using snoc.IH(1) [OF run]
      by (auto simp: parse_line_Inr stiffness_line_Inr position_line_Inr durations_snoc
               dest: not_both)
  next
    case 2
    then obtain st1 where run: "for_each_line ops nj xs init_state = Inr st1"
      and step: "parse_line ops nj l st1 = Inr st"
      by (auto simp: for_each_line_snoc_Inr)
    from step show ?case
      using snoc.IH(2) [OF run]
      by (auto simp: parse_line_Inr stiffness_line_Inr position_line_Inr pending_snoc
               dest: not_both)
  next
    case 3
    then obtain st1 where run: "for_each_line ops nj xs init_state = Inr st1"
      and step: "parse_line ops nj l st1 = Inr st"
      by (auto simp: for_each_line_snoc_Inr)
    from step show ?case
      using snoc.IH(3) [OF run]
      by (auto simp: parse_line_Inr stiffness_line_Inr position_line_Inr pending_snoc
               dest: not_both)
  next
    case 4
    then obtain st1 where run: "for_each_line ops nj xs init_state = Inr st1"
      and step: "parse_line ops nj l st1 = Inr st"
      by (auto simp: for_each_line_snoc_Inr)
    from step show ?case
      using snoc.IH(4) [OF run]
      by (auto simp: parse_line_Inr stiffness_line_Inr position_line_Inr pending_snoc
               dest: not_both)
  next
    case 5
    then obtain st1 where run: "for_each_line ops nj xs init_state = Inr st1"
      and step: "parse_line ops nj l st1 = Inr st"
      by (auto simp: for_each_line_snoc_Inr)
    from step show ?case
      using snoc.IH(5) [OF run]
      by (auto simp: parse_line_Inr stiffness_line_Inr position_line_Inr position_lines_snoc
               dest: not_both)
  next
    case 6
    then obtain st1 where run: "for_each_line ops nj xs init_state = Inr st1"
      and step: "parse_line ops nj l st1 = Inr st"
      by (auto simp: for_each_line_snoc_Inr)
    from step show ?case
      using snoc.IH(6) [OF run]
      by (auto simp: parse_line_Inr stiffness_line_Inr position_line_Inr position_lines_snoc
               dest: not_both)
  next
    case 7
    then obtain st1 where run: "for_each_line ops nj xs init_state = Inr st1"
      and step: "parse_line ops nj l st1 = Inr st"
      by (auto simp: for_each_line_snoc_Inr)
    from step show ?case
      using snoc.IH(7) [OF run]
      by (auto simp: parse_line_Inr stiffness_line_Inr position_line_Inr position_lines_snoc
               dest: not_both)
  next
    case 8
    then obtain st1 where run: "for_each_line ops nj xs init_state = Inr st1"
      and step: "parse_line ops nj l st1 = Inr st"
      by (auto simp: for_each_line_snoc_Inr)
    have len: "length (durations xs) = length (position_lines xs)"
      by (simp add: durations_def)
    from step show ?case
      using snoc.IH(8) [OF run] snoc.IH(1) [OF run]
      by (auto simp: parse_line_Inr stiffness_line_Inr position_line_Inr position_lines_snoc
                     cumulative_time_snoc cumulative_time_last len
               dest: not_both)
  }
qed

lemma key_frame_times:
  assumes "for_each_line ops nj inp init_state = Inr st"
    and "k < length (parseResult_keyFrames st)"
  shows "absolute_time (parseResult_keyFrames st ! k) = word_of_int (cumulative_time inp k)"
proof -
  have len: "length (parseResult_keyFrames st) = length (position_lines inp)"
    using run_state(7) [OF assms(1)] by (metis length_map)
  have "absolute_time (parseResult_keyFrames st ! k) =
          map absolute_time (parseResult_keyFrames st) ! k"
    using assms(2) by simp
  also have "\<dots> = map (\<lambda>k. word_of_int (cumulative_time inp k)) [0..<length (position_lines inp)] ! k"
    by (simp only: run_state(8) [OF assms(1)])
  also have "\<dots> = word_of_int (cumulative_time inp k)"
    using assms(2) len by simp
  finally show ?thesis .
qed

lemma position_lines_consistent:
  assumes "for_each_line ops nj inp init_state = Inr st"
    and "position_lines inp = first # others"
  shows "\<forall>l \<in> set (position_lines inp). line_indexes nj l = line_indexes nj first"
  using assms
proof (induction inp arbitrary: st others rule: rev_induct)
  case Nil
  then show ?case by (simp add: position_lines_def)
next
  case (snoc l xs)
  from snoc.prems(1) obtain st1 where run: "for_each_line ops nj xs init_state = Inr st1"
    and step: "parse_line ops nj l st1 = Inr st"
    by (auto simp: for_each_line_snoc_Inr)
  show ?case
  proof (cases "is_position l")
    case False
    with snoc.prems(2) have "position_lines xs = first # others"
      by (simp add: position_lines_snoc)
    from snoc.IH [OF run this] False show ?thesis
      by (simp add: position_lines_snoc)
  next
    case True
    with step have pl: "position_line ops nj l st1 = Inr st"
      by (auto simp: parse_line_Inr dest: not_both)
    show ?thesis
    proof (cases "position_lines xs = []")
      case True
      with \<open>is_position l\<close> snoc.prems(2) show ?thesis
        by (simp add: position_lines_snoc)
    next
      case False
      with \<open>is_position l\<close> snoc.prems(2) obtain others' where
        xs: "position_lines xs = first # others'"
        by (cases "position_lines xs") (auto simp: position_lines_snoc)
      have all: "\<forall>l \<in> set (position_lines xs). line_indexes nj l = line_indexes nj first"
        by (rule snoc.IH [OF run xs])
      have "last (position_lines xs) \<in> set (position_lines xs)"
        using False by simp
      with all have last: "line_indexes nj (last (position_lines xs)) = line_indexes nj first"
        by blast
      from run_state(5,6) [OF run] False
      have "\<not> firstPosLine st1"
        and "prevJointPositions st1 = line_positions ops nj (last (position_lines xs))"
        by auto
      with pl last have "line_indexes nj l = line_indexes nj first"
        by (simp add: position_line_Inr line_positions_def)
      with all \<open>is_position l\<close> show ?thesis
        by (simp add: position_lines_snoc)
    qed
  qed
qed

lemma sum_list_take_mono:
  fixes ds :: "int list"
  assumes "\<forall>d \<in> set ds. 0 \<le> d" and "i \<le> j"
  shows "sum_list (take i ds) \<le> sum_list (take j ds)"
proof -
  have "take j ds = take i ds @ take (j - i) (drop i ds)"
    using assms(2) by (metis le_add_diff_inverse take_add)
  moreover have "0 \<le> sum_list (take (j - i) (drop i ds))"
    using assms(1) by (intro sum_list_nonneg) (auto dest: in_set_takeD in_set_dropD)
  ultimately show ?thesis by simp
qed

lemma sum_list_take_le:
  fixes ds :: "int list"
  assumes "\<forall>d \<in> set ds. 0 \<le> d"
  shows "sum_list (take i ds) \<le> sum_list ds"
  using sum_list_take_mono [OF assms, of i "max i (length ds)"] by simp

lemma sum_list_take_nonneg:
  fixes ds :: "int list"
  assumes "\<forall>d \<in> set ds. 0 \<le> d"
  shows "0 \<le> sum_list (take i ds)"
  using assms by (intro sum_list_nonneg) (auto dest: in_set_takeD)

lemma unat_word_of_int_32:
  "0 \<le> x \<Longrightarrow> x < 2 ^ 32 \<Longrightarrow> unat (word_of_int x :: 32 word) = nat x"
  by (simp add: unat_eq_nat_uint uint_word_of_int)

subsection \<open>Evaluation of the examples\<close>

lemmas example_lines = nao_joints_def pos_90_300_def pos_45_200_def pos_45_back_def pos_90_minus_def
  pos_trailing_def pos_abc_def pos_one_joint_def stiff_short_def stiff_head_def stiff_neck_def
  comment_line_def kf_two_joints_def

lemmas parse_eval = parse_def parse_line_def front_def position_line_def stiffness_line_def
  split_def isspace_def at_def stof_def strtof_subject_def sign_prefix_def unsigned_subject_def
  mantissa_def isdigit_def exponent_part_def sym_ops_def push_position_def push_stiffness_def
  add_duration_def back_elem_def stoi_def check_stiffnesses_def emit_key_frame_def fail_def upt_rec
  RCLCPP_ERROR_format_def stiffness_message_def joint_message_def duration_message_def isupper_def

lemmas spec_eval = is_position_def is_stiffness_def front_def line_indexes_def set_indexes_def
  line_values_def converted_def line_convertible_def convertible_def duration_of_def
  has_duration_def durations_def position_lines_def pending_stiffness_lines_def line_positions_def
  split_def isspace_def stof_def strtof_subject_def sign_prefix_def unsigned_subject_def
  mantissa_def isdigit_def exponent_part_def sym_ops_def stoi_def upt_rec isupper_def

lemma parse_nothing:
  "parse sym_ops nao_joints [] = Returned \<lparr>successful = True, keyFrames = []\<rparr> None"
  by (simp add: parse_eval)

lemma parse_comment:
  "parse sym_ops nao_joints [comment_line] = Returned \<lparr>successful = True, keyFrames = []\<rparr> None"
  by (simp add: parse_eval example_lines)

lemma parse_comment_300:
  "parse sym_ops nao_joints [comment_line, pos_90_300] =
     Returned \<lparr>successful = True, keyFrames = [kf_two_joints 300 ''90'' ''-90'']\<rparr> None"
  by (simp add: parse_eval example_lines)

lemma parse_200:
  "parse sym_ops nao_joints [pos_45_200] =
     Returned \<lparr>successful = True, keyFrames = [kf_two_joints 200 ''45'' ''-45'']\<rparr> None"
  by (simp add: parse_eval example_lines)

lemma parse_200_abc:
  "parse sym_ops nao_joints [pos_45_200, pos_abc] =
     Returned \<lparr>successful = False, keyFrames = [kf_two_joints 200 ''45'' ''-45'']\<rparr>
       (Some (InvalidNumericField ''abc''))"
  by (simp add: parse_eval example_lines)

lemma parse_300_200:
  "parse sym_ops nao_joints [pos_90_300, pos_45_200] =
     Returned \<lparr>successful = True,
               keyFrames = [kf_two_joints 300 ''90'' ''-90'', kf_two_joints 500 ''45'' ''-45'']\<rparr> None"
  by (simp add: parse_eval example_lines)

lemma parse_stiffness_lines:
  "parse sym_ops nao_joints [stiff_head, stiff_neck] =
     Returned \<lparr>successful = True, keyFrames = []\<rparr> None"
  "parse sym_ops nao_joints [stiff_head] = Returned \<lparr>successful = True, keyFrames = []\<rparr> None"
  by (simp_all add: parse_eval example_lines)

lemma durations_300_200: "durations [pos_90_300, pos_45_200] = [300, 200]"
  by (simp add: spec_eval example_lines)

lemma position_lines_300_200:
  "position_lines [pos_90_300, pos_45_200] = pos_90_300 # [pos_45_200]"
  by (simp add: spec_eval example_lines)

lemma line_indexes_examples:
  "line_indexes nao_joints pos_90_300 = [0, 1]"
  "line_indexes nao_joints pos_one_joint = [0]"
  "line_indexes nao_joints stiff_head = [0]"
  "line_indexes nao_joints stiff_neck = [1]"
  by (simp_all add: spec_eval example_lines)

subsection \<open>Failure\<close>

text \<open>
  C1 (as amended). The claim reads: on every input on which parse fails, the returned result
  carries no key frames. The code returns the \<^verbatim>\<open>ParseResult\<close> it has been filling, with
  \<^verbatim>\<open>successful = false\<close>, and never clears \<^verbatim>\<open>keyFrames\<close>. What holds: when parse returns a
  result that is not successful, an error has been logged and there is a failing line, at
  some position \<open>n\<close>: the lines before it parse successfully, those lines and the failing
  line give the very result of the whole input, and the key frames of that result are the
  key frames of the lines before the failing line, one for each position directive among
  them.
\<close>

theorem failure_keeps_earlier_key_frames:
  assumes "parse ops nj inp = Returned r e" and "\<not> successful r"
  shows "e \<noteq> None \<and>
         (\<exists>n<length inp.
            parse ops nj (take n inp) = Returned \<lparr>successful = True, keyFrames = keyFrames r\<rparr> None \<and>
            parse ops nj (take (Suc n) inp) = Returned r e \<and>
            length (keyFrames r) = length (filter (\<lambda>l. front l = Some CHR ''!'') (take n inp)))"
proof -
  from assms obtain f where run: "for_each_line ops nj inp init_state = Inl (Returned r (Some f))"
    and e: "e = Some f"
    using parse_failure_iff [of ops nj inp r e] by auto
  from for_each_line_Inl [OF run] obtain n st' f' where n: "n < length inp"
    and pre: "for_each_line ops nj (take n inp) init_state = Inr st'"
    and step: "parse_line ops nj (inp ! n) st' = Inl (Returned r (Some f))"
    and out: "Returned r (Some f) = fail f' st'"
    by auto
  from out have kfs: "keyFrames r = parseResult_keyFrames st'" by (simp add: fail_def)
  with pre have before: "parse ops nj (take n inp) =
      Returned \<lparr>successful = True, keyFrames = keyFrames r\<rparr> None"
    by (simp add: parse_def)
  have "take (Suc n) inp = take n inp @ inp ! n # []"
    using n by (simp add: take_Suc_conv_app_nth)
  with parse_append_failure [OF pre step, of "[]"]
  have failing: "parse ops nj (take (Suc n) inp) = Returned r e"
    by (simp add: e)
  have "length (map kf_positions (parseResult_keyFrames st')) = length (position_lines (take n inp))"
    by (simp only: run_state(7) [OF pre] length_map)
  then have count: "length (keyFrames r) =
      length (filter (\<lambda>l. front l = Some CHR ''!'') (take n inp))"
    by (simp add: kfs position_lines_def is_position_def [abs_def])
  from n e before failing count show ?thesis by auto
qed

text \<open>
  A well-formed position line followed by a stiffness line of two tokens: the result is a
  failure that carries the key frame of the first line.
\<close>

theorem failure_keeps_earlier_key_frames_counterexample:
  "parse sym_ops nao_joints [pos_90_300, stiff_short] =
     Returned
       \<lparr>successful = False,
        keyFrames =
          [\<lparr>absolute_time = 300,
            kf_positions = \<lparr>p_indexes = [0, 1],
                            positions = [MulPiDiv180 (Strtof ''90''), MulPiDiv180 (Strtof ''-90'')]\<rparr>,
            kf_stiffnesses = \<lparr>s_indexes = [0, 1], stiffnesses = [OnePointZero, OnePointZero]\<rparr>\<rparr>]\<rparr>
       (Some (MalformedLine 2 26))"
  by (simp add: parse_eval example_lines)

theorem failure_keeps_earlier_key_frames_witness:
  "parse sym_ops nao_joints [pos_45_200, pos_abc] =
     Returned \<lparr>successful = False, keyFrames = [kf_two_joints 200 ''45'' ''-45'']\<rparr>
       (Some (InvalidNumericField ''abc'')) \<and>
   (\<exists>n<length [pos_45_200, pos_abc].
      parse sym_ops nao_joints (take n [pos_45_200, pos_abc]) =
        Returned \<lparr>successful = True, keyFrames = [kf_two_joints 200 ''45'' ''-45'']\<rparr> None \<and>
      parse sym_ops nao_joints (take (Suc n) [pos_45_200, pos_abc]) =
        Returned \<lparr>successful = False, keyFrames = [kf_two_joints 200 ''45'' ''-45'']\<rparr>
          (Some (InvalidNumericField ''abc'')) \<and>
      length [kf_two_joints 200 ''45'' ''-45''] =
        length (filter (\<lambda>l. front l = Some CHR ''!'') (take n [pos_45_200, pos_abc])))"
  using failure_keeps_earlier_key_frames [OF parse_200_abc] parse_200_abc by simp

text \<open>
  C2 (as amended). The claim reads: a value token that is neither \<open>-\<close> nor a valid number,
  such as \<open>abc\<close>, \<open>1.5abc\<close> or an out-of-range literal, makes parse fail with
  InvalidNumericField. The code rejects a token only when \<^verbatim>\<open>std::stof\<close> throws
  \<^verbatim>\<open>std::invalid_argument\<close>, that is when no prefix of the token is a number. What holds: in
  a stiffness or position directive with the right number of tokens, reached without failure,
  take a token at a position \<open>i\<close> in \<open>1 .. NUMJOINTS\<close> that is not \<open>-\<close> and holds no \<open>%\<close>,
  the value tokens before it being \<open>-\<close> or convertible. Parse returns a failure with the
  error InvalidNumericField for that token if and only if the token has no prefix, after
  white space and a sign, that has the form of a number: \<open>abc\<close> is rejected, \<open>1.5abc\<close> is
  not.
\<close>

theorem invalid_numeric_field:
  assumes ok: "parse ops nj pre = Returned r e" "successful r"
    and kind: "(is_stiffness line \<and> length (split line) = nj + 1) \<or>
               (is_position line \<and> length (split line) = nj + 2)"
    and i: "1 \<le> i" "i \<le> nj"
    and tok: "split line ! i \<noteq> ''-''" "CHR ''%'' \<notin> set (split line ! i)"
    and before: "convertible ops (split line) [1..<i]"
  shows "parse ops nj (pre @ line # rest) =
           Returned \<lparr>successful = False, keyFrames = keyFrames r\<rparr>
             (Some (InvalidNumericField (split line ! i))) \<longleftrightarrow>
         strtof_subject (split line ! i) = None"
proof
  assume "parse ops nj (pre @ line # rest) =
           Returned \<lparr>successful = False, keyFrames = keyFrames r\<rparr>
             (Some (InvalidNumericField (split line ! i)))"
  then have "stof ops (split line ! i) = InvalidArgument"
    by (rule reported_token_rejected)
  then show "strtof_subject (split line ! i) = None"
    by (simp add: stof_InvalidArgument_iff)
next
  assume "strtof_subject (split line ! i) = None"
  then have inv: "stof ops (split line ! i) = InvalidArgument"
    by (simp add: stof_InvalidArgument_iff)
  note fmt = messages_without_percent [OF tok(2)]
  from ok obtain st where run: "for_each_line ops nj pre init_state = Inr st"
    and r: "r = \<lparr>successful = True, keyFrames = parseResult_keyFrames st\<rparr>"
    using parse_success_iff [of ops nj pre r e] by auto
  from kind i have len: "i < length (split line)" by auto
  note split = value_positions_split [OF i]
  have "parse_line ops nj line st = Inl (fail (InvalidNumericField (split line ! i)) st)"
    using kind
  proof
    assume a: "is_stiffness line \<and> length (split line) = nj + 1"
    then have "parse_line ops nj line st = stiffness_line ops nj line st"
      by (auto simp: parse_line_def is_stiffness_def)
    also have "\<dots> = stiffness_loop ops (split line) ([1..<i] @ i # [Suc i..<nj + 1])
                       (st\<lparr>customStiffnesses := True\<rparr>)"
      using a unfolding stiffness_line_def Let_def split [symmetric] by simp
    also have "\<dots> = Inl (fail (InvalidNumericField (split line ! i)) (st\<lparr>customStiffnesses := True\<rparr>))"
      by (rule stiffness_loop_first_invalid [OF before len tok(1) inv fmt(1)])
    finally show ?thesis by simp
  next
    assume a: "is_position line \<and> length (split line) = nj + 2"
    then have "parse_line ops nj line st = position_line ops nj line st"
      by (auto simp: parse_line_def is_position_def)
    also have "\<dots> = (case position_loop ops (split line) ([1..<i] @ i # [Suc i..<nj + 1])
                         \<lparr>p_indexes = [], positions = []\<rparr> st of
                         Inl out \<Rightarrow> Inl out
                       | Inr (jointPositions, st1) \<Rightarrow>
                          if firstPosLine st1
                          then add_duration (split line) jointPositions (st1\<lparr>firstPosLine := False\<rparr>)
                          else if p_indexes jointPositions \<noteq> p_indexes (prevJointPositions st1)
                          then Inl (fail InconsistentJointSet st1)
                          else add_duration (split line) jointPositions st1)"
      using a unfolding position_line_def Let_def split [symmetric] by simp
    also have "\<dots> = Inl (fail (InvalidNumericField (split line ! i)) st)"
      unfolding position_loop_first_invalid [OF before len tok(1) inv fmt(2)] by simp
    finally show ?thesis .
  qed
  from parse_append_failure [OF run this]
  show "parse ops nj (pre @ line # rest) =
           Returned \<lparr>successful = False, keyFrames = keyFrames r\<rparr>
             (Some (InvalidNumericField (split line ! i)))"
    by (simp add: fail_def r)
qed

text \<open>
  The token \<open>1.5abc\<close> has the prefix 1.5: it is read as 1.5 and the line is accepted.
\<close>

theorem invalid_numeric_field_counterexample:
  "parse sym_ops nao_joints [pos_trailing] =
     Returned
       \<lparr>successful = True,
        keyFrames =
          [\<lparr>absolute_time = 100,
            kf_positions = \<lparr>p_indexes = [0], positions = [MulPiDiv180 (Strtof ''1.5'')]\<rparr>,
            kf_stiffnesses = \<lparr>s_indexes = [0], stiffnesses = [OnePointZero]\<rparr>\<rparr>]\<rparr>
       None"
  by (simp add: parse_eval example_lines)

theorem invalid_numeric_field_witness:
  "split pos_abc ! 2 = ''abc'' \<and> strtof_subject ''abc'' = None \<and>
   parse sym_ops nao_joints ([] @ pos_abc # []) =
     Returned \<lparr>successful = False, keyFrames = []\<rparr> (Some (InvalidNumericField ''abc'')) \<and>
   split pos_trailing ! 1 = ''1.5abc'' \<and> strtof_subject ''1.5abc'' = Some ''1.5'' \<and>
   parse sym_ops nao_joints ([] @ pos_trailing # []) \<noteq>
     Returned \<lparr>successful = False, keyFrames = []\<rparr> (Some (InvalidNumericField ''1.5abc''))"
proof -
  have tok: "split pos_abc ! 2 = ''abc''" "split pos_trailing ! 1 = ''1.5abc''"
    by (simp_all add: spec_eval example_lines)
  have sub: "strtof_subject ''abc'' = None" "strtof_subject ''1.5abc'' = Some ''1.5''"
    by (simp_all add: spec_eval)
  have kind: "(is_stiffness pos_abc \<and> length (split pos_abc) = nao_joints + 1) \<or>
              (is_position pos_abc \<and> length (split pos_abc) = nao_joints + 2)"
    "(is_stiffness pos_trailing \<and> length (split pos_trailing) = nao_joints + 1) \<or>
     (is_position pos_trailing \<and> length (split pos_trailing) = nao_joints + 2)"
    by (simp_all add: spec_eval example_lines)
  have before: "convertible sym_ops (split pos_abc) [1..<2]"
    "convertible sym_ops (split pos_trailing) [1..<1]"
    by (simp_all add: spec_eval example_lines)
  have a: "parse sym_ops nao_joints ([] @ pos_abc # []) =
     Returned \<lparr>successful = False, keyFrames = keyFrames \<lparr>successful = True, keyFrames = []\<rparr>\<rparr>
       (Some (InvalidNumericField (split pos_abc ! 2))) \<longleftrightarrow>
     strtof_subject (split pos_abc ! 2) = None"
    by (rule invalid_numeric_field [OF parse_nothing _ kind(1) _ _ _ _ before(1)])
       (simp_all add: tok nao_joints_def)
  have b: "parse sym_ops nao_joints ([] @ pos_trailing # []) =
     Returned \<lparr>successful = False, keyFrames = keyFrames \<lparr>successful = True, keyFrames = []\<rparr>\<rparr>
       (Some (InvalidNumericField (split pos_trailing ! 1))) \<longleftrightarrow>
     strtof_subject (split pos_trailing ! 1) = None"
    by (rule invalid_numeric_field [OF parse_nothing _ kind(2) _ _ _ _ before(2)])
       (simp_all add: tok tok [unfolded One_nat_def] nao_joints_def)
  from a b tok sub show ?thesis by simp
qed

text \<open>
  Two ways in which a value token ends parse without a result. A token for which
  \<^verbatim>\<open>std::stof\<close> throws \<^verbatim>\<open>std::out_of_range\<close> ends parse with that exception: the handlers
  catch \<^verbatim>\<open>std::invalid_argument\<close> only. A rejected token that holds a conversion specification
  becomes part of the format of \<^verbatim>\<open>RCLCPP_ERROR\<close>, which then reads arguments that were not
  passed.
\<close>

lemma out_of_range_position_escapes:
  assumes ok: "parse ops nj pre = Returned r e" "successful r"
    and kind: "is_position line" "length (split line) = nj + 2"
    and i: "1 \<le> i" "i \<le> nj"
    and tok: "split line ! i \<noteq> ''-''" "stof ops (split line ! i) = OutOfRange"
    and before: "convertible ops (split line) [1..<i]"
  shows "parse ops nj (pre @ line # rest) = Threw_out_of_range"
proof -
  from ok obtain st where run: "for_each_line ops nj pre init_state = Inr st"
    using parse_success_iff [of ops nj pre r e] by auto
  from kind i have len: "i < length (split line)" by auto
  note split = value_positions_split [OF i]
  from kind have "parse_line ops nj line st = position_line ops nj line st"
    by (auto simp: parse_line_def is_position_def)
  also have "\<dots> = (case position_loop ops (split line) ([1..<i] @ i # [Suc i..<nj + 1])
                       \<lparr>p_indexes = [], positions = []\<rparr> st of
                       Inl out \<Rightarrow> Inl out
                     | Inr (jointPositions, st1) \<Rightarrow>
                        if firstPosLine st1
                        then add_duration (split line) jointPositions (st1\<lparr>firstPosLine := False\<rparr>)
                        else if p_indexes jointPositions \<noteq> p_indexes (prevJointPositions st1)
                        then Inl (fail InconsistentJointSet st1)
                        else add_duration (split line) jointPositions st1)"
    using kind unfolding position_line_def Let_def split [symmetric] by simp
  also have "\<dots> = Inl Threw_out_of_range"
    unfolding position_loop_first_out_of_range [OF before len tok] by simp
  finally show ?thesis
    using parse_append_failure [OF run] by simp
qed

lemma conversion_in_rejected_token_undefined:
  "parse sym_ops nao_joints [pos_percent] = Undefined_behaviour"
  by (simp add: parse_eval example_lines pos_percent_def)

subsection \<open>Lines that are ignored\<close>

text \<open>
  C3. The claim reads: an input of comment and blank lines only, zero-length lines included,
  gives Success with no key frame, and classifying an empty line is well defined. The code
  calls \<^verbatim>\<open>line.front()\<close> on every line, and \<^verbatim>\<open>front\<close> requires a non-empty string: on a
  zero-length line parse has undefined behaviour.
\<close>

theorem empty_line_undefined:
  "parse ops nj ([] # rest) = Undefined_behaviour"
  by (simp add: parse_def parse_line_def front_def)

text \<open>Non-empty lines that start with neither marker are ignored.\<close>

lemma comment_lines_ignored:
  assumes "\<forall>l \<in> set inp. l \<noteq> [] \<and> \<not> is_stiffness l \<and> \<not> is_position l"
  shows "parse ops nj inp = Returned \<lparr>successful = True, keyFrames = []\<rparr> None"
proof -
  have "for_each_line ops nj inp st = Inr st" for st :: "'a parse_state"
    using assms
    by (induction inp)
       (auto simp: parse_line_def front_def is_stiffness_def is_position_def split: list.splits)
  then show ?thesis by (simp add: parse_def)
qed

subsection \<open>Time\<close>

text \<open>
  C4 (as amended). The claim reads: on every successful parse the absolute times of the key
  frames are non-decreasing. The clock is an \<^verbatim>\<open>unsigned\<close> to which the \<^verbatim>\<open>int\<close> duration of
  each position line is added, with wrap-around. What holds: on a successful parse whose
  durations are all non-negative and add up to less than \<open>2 ^ 32\<close>, the absolute times of the
  key frames, in emission order, are non-decreasing.
\<close>

theorem times_non_decreasing_without_wrap:
  assumes "parse ops nj inp = Returned r e" and "successful r"
    and nonneg: "\<forall>d \<in> set (durations inp). 0 \<le> d"
    and bound: "sum_list (durations inp) < 2 ^ 32"
  shows "sorted (map (\<lambda>kf. unat (absolute_time kf)) (keyFrames r))"
proof -
  from assms(1,2) obtain st where run: "for_each_line ops nj inp init_state = Inr st"
    and r: "keyFrames r = parseResult_keyFrames st"
    using parse_success_iff [of ops nj inp r e] by auto
  have time: "unat (absolute_time (keyFrames r ! k)) = nat (cumulative_time inp k)"
    if "k < length (keyFrames r)" for k
  proof -
    have "0 \<le> cumulative_time inp k"
      unfolding cumulative_time_def by (rule sum_list_take_nonneg [OF nonneg])
    moreover have "cumulative_time inp k < 2 ^ 32"
      unfolding cumulative_time_def using sum_list_take_le [OF nonneg, of "Suc k"] bound by simp
    ultimately show ?thesis
      using key_frame_times [OF run, of k] that by (simp add: r unat_word_of_int_32)
  qed
  have "unat (absolute_time (keyFrames r ! i)) \<le> unat (absolute_time (keyFrames r ! j))"
    if "i \<le> j" "j < length (keyFrames r)" for i j
  proof -
    have "cumulative_time inp i \<le> cumulative_time inp j"
      unfolding cumulative_time_def using that(1) by (intro sum_list_take_mono [OF nonneg]) simp
    then show ?thesis using that by (simp add: time)
  qed
  then show ?thesis
    by (simp add: sorted_iff_nth_mono)
qed

text \<open>Durations 300 and -100 give the absolute times 300 and 200.\<close>

theorem times_non_decreasing_without_wrap_counterexample:
  "parse sym_ops nao_joints [pos_90_300, pos_45_back] =
     Returned
       \<lparr>successful = True,
        keyFrames =
          [\<lparr>absolute_time = 300,
            kf_positions = \<lparr>p_indexes = [0, 1],
                            positions = [MulPiDiv180 (Strtof ''90''), MulPiDiv180 (Strtof ''-90'')]\<rparr>,
            kf_stiffnesses = \<lparr>s_indexes = [0, 1], stiffnesses = [OnePointZero, OnePointZero]\<rparr>\<rparr>,
           \<lparr>absolute_time = 200,
            kf_positions = \<lparr>p_indexes = [0, 1],
                            positions = [MulPiDiv180 (Strtof ''45''), MulPiDiv180 (Strtof ''-45'')]\<rparr>,
            kf_stiffnesses = \<lparr>s_indexes = [0, 1], stiffnesses = [OnePointZero, OnePointZero]\<rparr>\<rparr>]\<rparr>
       None"
  by (simp add: parse_eval example_lines)

theorem times_non_decreasing_without_wrap_witness:
  "parse sym_ops nao_joints [pos_90_300, pos_45_200] =
     Returned \<lparr>successful = True,
               keyFrames = [kf_two_joints 300 ''90'' ''-90'', kf_two_joints 500 ''45'' ''-45'']\<rparr> None \<and>
   durations [pos_90_300, pos_45_200] = [300, 200] \<and>
   sorted (map (\<lambda>kf. unat (absolute_time kf))
     [kf_two_joints 300 ''90'' ''-90'', kf_two_joints 500 ''45'' ''-45''])"
  using times_non_decreasing_without_wrap [OF parse_300_200] parse_300_200
  by (simp add: durations_300_200)

text \<open>
  C6 (as amended). The claim reads: on every successful parse the absolute time of the
  \<open>k\<close>-th key frame equals the sum of the durations of the position directives \<open>1 .. k\<close>.
  What holds: it is that sum reduced modulo \<open>2 ^ 32\<close>, the value of the \<^verbatim>\<open>unsigned\<close> clock;
  durations 300 and 200 give 300 and 500.
\<close>

theorem absolute_time_is_wrapped_sum:
  assumes "parse ops nj inp = Returned r e" and "successful r"
    and k: "k < length (keyFrames r)"
  shows "absolute_time (keyFrames r ! k) = word_of_int (sum_list (take (Suc k) (durations inp))) \<and>
         uint (absolute_time (keyFrames r ! k)) = sum_list (take (Suc k) (durations inp)) mod 2 ^ 32"
proof -
  from assms(1,2) obtain st where run: "for_each_line ops nj inp init_state = Inr st"
    and r: "keyFrames r = parseResult_keyFrames st"
    using parse_success_iff [of ops nj inp r e] by auto
  from key_frame_times [OF run, of k] k
  have "absolute_time (keyFrames r ! k) = word_of_int (sum_list (take (Suc k) (durations inp)))"
    by (simp add: r cumulative_time_def)
  then show ?thesis by (simp add: uint_word_of_int)
qed

text \<open>A single position line of duration -1 gets the absolute time \<open>2 ^ 32 - 1\<close>.\<close>

theorem absolute_time_is_wrapped_sum_counterexample:
  "parse sym_ops nao_joints [pos_90_minus] =
     Returned
       \<lparr>successful = True,
        keyFrames =
          [\<lparr>absolute_time = 4294967295,
            kf_positions = \<lparr>p_indexes = [0, 1],
                            positions = [MulPiDiv180 (Strtof ''90''), MulPiDiv180 (Strtof ''-90'')]\<rparr>,
            kf_stiffnesses = \<lparr>s_indexes = [0, 1], stiffnesses = [OnePointZero, OnePointZero]\<rparr>\<rparr>]\<rparr>
       None \<and>
   durations [pos_90_minus] = [- 1]"
  by (simp add: parse_eval example_lines) (simp add: spec_eval example_lines)

theorem absolute_time_is_wrapped_sum_witness:
  "parse sym_ops nao_joints [pos_90_300, pos_45_200] =
     Returned \<lparr>successful = True,
               keyFrames = [kf_two_joints 300 ''90'' ''-90'', kf_two_joints 500 ''45'' ''-45'']\<rparr> None \<and>
   durations [pos_90_300, pos_45_200] = [300, 200] \<and>
   absolute_time ([kf_two_joints 300 ''90'' ''-90'', kf_two_joints 500 ''45'' ''-45''] ! 1) = 500 \<and>
   uint (absolute_time ([kf_two_joints 300 ''90'' ''-90'', kf_two_joints 500 ''45'' ''-45''] ! 1)) = 500"
  using absolute_time_is_wrapped_sum [OF parse_300_200, of 1] parse_300_200
  by (simp add: durations_300_200)

subsection \<open>Joint sets\<close>

text \<open>
  C5. On every successful parse, every key frame carries the position index sequence of the
  first position directive of the input; and after such an input, a position line with the
  right number of tokens and convertible value fields whose index sequence differs from it
  makes parse fail with InconsistentJointSet.
\<close>

theorem same_joint_indexes:
  assumes "parse ops nj inp = Returned r e" and "successful r"
    and first: "position_lines inp = first # others"
  shows "(\<forall>kf \<in> set (keyFrames r). p_indexes (kf_positions kf) = line_indexes nj first) \<and>
         (is_position line \<and> length (split line) = nj + 2 \<and> line_convertible ops nj line \<and>
          line_indexes nj line \<noteq> line_indexes nj first \<longrightarrow>
            parse ops nj (inp @ line # rest) =
              Returned \<lparr>successful = False, keyFrames = keyFrames r\<rparr> (Some InconsistentJointSet))"
proof
  from assms(1,2) obtain st where run: "for_each_line ops nj inp init_state = Inr st"
    and r: "r = \<lparr>successful = True, keyFrames = parseResult_keyFrames st\<rparr>"
    using parse_success_iff [of ops nj inp r e] by auto
  note same = position_lines_consistent [OF run first]
  have "map kf_positions (keyFrames r) = map (line_positions ops nj) (position_lines inp)"
    using run_state(7) [OF run] by (simp add: r)
  then have "map p_indexes (map kf_positions (keyFrames r)) =
             map p_indexes (map (line_positions ops nj) (position_lines inp))"
    by (rule arg_cong)
  then have "map (\<lambda>kf. p_indexes (kf_positions kf)) (keyFrames r) =
             map (line_indexes nj) (position_lines inp)"
    by (simp add: comp_def line_positions_def)
  then have "set (map (\<lambda>kf. p_indexes (kf_positions kf)) (keyFrames r)) \<subseteq> {line_indexes nj first}"
    using same by auto
  then show "\<forall>kf \<in> set (keyFrames r). p_indexes (kf_positions kf) = line_indexes nj first"
    by auto
  show "is_position line \<and> length (split line) = nj + 2 \<and> line_convertible ops nj line \<and>
          line_indexes nj line \<noteq> line_indexes nj first \<longrightarrow>
            parse ops nj (inp @ line # rest) =
              Returned \<lparr>successful = False, keyFrames = keyFrames r\<rparr> (Some InconsistentJointSet)"
  proof
    assume a: "is_position line \<and> length (split line) = nj + 2 \<and> line_convertible ops nj line \<and>
          line_indexes nj line \<noteq> line_indexes nj first"
    from first have ne: "position_lines inp \<noteq> []" by simp
    then have "last (position_lines inp) \<in> set (position_lines inp)" by simp
    with same have "line_indexes nj (last (position_lines inp)) = line_indexes nj first" by blast
    with run_state(5,6) [OF run] ne
    have st: "\<not> firstPosLine st" "p_indexes (prevJointPositions st) = line_indexes nj first"
      by (auto simp: line_positions_def)
    from a have "parse_line ops nj line st = position_line ops nj line st"
      by (auto simp: parse_line_def is_position_def)
    also have "\<dots> = Inl (fail InconsistentJointSet st)"
      using a st by (simp add: position_line_convertible)
    finally show "parse ops nj (inp @ line # rest) =
              Returned \<lparr>successful = False, keyFrames = keyFrames r\<rparr> (Some InconsistentJointSet)"
      using parse_append_failure [OF run] by (simp add: fail_def r)
  qed
qed

theorem same_joint_indexes_witness:
  "list_all (\<lambda>kf. p_indexes (kf_positions kf) = [0, 1])
     [kf_two_joints 300 ''90'' ''-90'', kf_two_joints 500 ''45'' ''-45''] \<and>
   parse sym_ops nao_joints ([pos_90_300, pos_45_200] @ pos_one_joint # []) =
     Returned \<lparr>successful = False,
               keyFrames = [kf_two_joints 300 ''90'' ''-90'', kf_two_joints 500 ''45'' ''-45'']\<rparr>
       (Some InconsistentJointSet)"
proof -
  have line: "is_position pos_one_joint \<and> length (split pos_one_joint) = nao_joints + 2 \<and>
      line_convertible sym_ops nao_joints pos_one_joint \<and>
      line_indexes nao_joints pos_one_joint \<noteq> line_indexes nao_joints pos_90_300"
    by (simp add: line_indexes_examples) (simp add: spec_eval example_lines)
  from same_joint_indexes [OF parse_300_200 _ position_lines_300_200,
      of pos_one_joint "[]"] line
  show ?thesis by (simp add: line_indexes_examples list_all_iff)
qed

subsection \<open>Stiffness\<close>

text \<open>
  C7. When stiffness directives are pending for a position directive that passes the earlier
  checks (number of tokens, value fields, joint set of the previous position line, duration),
  parse fails with StiffnessPositionMismatch unless the indexes accumulated from the pending
  stiffness directives, concatenated in line order, equal the index sequence of the position
  line; when they are equal, the key frame emitted carries the indexes and the values of the
  stiffness directives.
\<close>

theorem custom_stiffness_must_match:
  assumes "parse ops nj pre = Returned r e" and "successful r"
    and pending: "pending_stiffness_lines pre \<noteq> []"
    and line: "is_position line" "length (split line) = nj + 2" "line_convertible ops nj line"
    and consistent: "position_lines pre = [] \<or>
                     line_indexes nj line = line_indexes nj (last (position_lines pre))"
    and duration: "has_duration line"
  shows "parse ops nj (pre @ [line]) =
     (if concat (map (line_indexes nj) (pending_stiffness_lines pre)) = line_indexes nj line
      then Returned
             \<lparr>successful = True,
              keyFrames = keyFrames r @
                [\<lparr>absolute_time = word_of_int (sum_list (durations pre) + duration_of line),
                  kf_positions = line_positions ops nj line,
                  kf_stiffnesses =
                    \<lparr>s_indexes = concat (map (line_indexes nj) (pending_stiffness_lines pre)),
                     stiffnesses = concat (map (line_values ops nj) (pending_stiffness_lines pre))\<rparr>\<rparr>]\<rparr>
             None
      else Returned \<lparr>successful = False, keyFrames = keyFrames r\<rparr> (Some StiffnessPositionMismatch))"
proof -
  from assms(1,2) obtain st where run: "for_each_line ops nj pre init_state = Inr st"
    and r: "r = \<lparr>successful = True, keyFrames = parseResult_keyFrames st\<rparr>"
    using parse_success_iff [of ops nj pre r e] by auto
  note st = run_state [OF run]
  from st(2) pending have custom: "customStiffnesses st" by simp
  have js: "jointStiffnesses st =
      \<lparr>s_indexes = concat (map (line_indexes nj) (pending_stiffness_lines pre)),
       stiffnesses = concat (map (line_values ops nj) (pending_stiffness_lines pre))\<rparr>"
    using st(3,4) by (cases "jointStiffnesses st") simp
  from consistent st(5,6)
  have ok: "firstPosLine st \<or> line_indexes nj line = p_indexes (prevJointPositions st)"
    by (auto simp: line_positions_def)
  from duration obtain d where d: "stoi (last (split line)) = Converted d"
    by (auto simp: has_duration_def split: conv.splits)
  from line(1) have "parse_line ops nj line st = position_line ops nj line st"
    by (auto simp: parse_line_def is_position_def)
  also have "\<dots> =
      (if line_indexes nj line \<noteq> s_indexes (jointStiffnesses st)
       then Inl (fail StiffnessPositionMismatch st)
       else Inr (after_position ops nj line st))"
    using ok custom d by (auto simp: position_line_convertible [OF line(2,3)])
  finally have step: "parse_line ops nj line st =
      (if line_indexes nj line \<noteq> s_indexes (jointStiffnesses st)
       then Inl (fail StiffnessPositionMismatch st)
       else Inr (after_position ops nj line st))" .
  show ?thesis
  proof (cases "concat (map (line_indexes nj) (pending_stiffness_lines pre)) = line_indexes nj line")
    case True
    with step st(3) have "parse_line ops nj line st = Inr (after_position ops nj line st)"
      by simp
    from parse_snoc_success [OF run this] True custom show ?thesis
      by (simp add: r emitted_key_frame_def st(1) js)
  next
    case False
    with step st(3) have "parse_line ops nj line st = Inl (fail StiffnessPositionMismatch st)"
      by auto
    from parse_append_failure [OF run this, of "[]"] False show ?thesis
      by (simp add: r fail_def)
  qed
qed

theorem custom_stiffness_must_match_witness:
  "parse sym_ops nao_joints ([stiff_head, stiff_neck] @ [pos_90_300]) =
     Returned
       \<lparr>successful = True,
        keyFrames =
          [\<lparr>absolute_time = 300,
            kf_positions = \<lparr>p_indexes = [0, 1],
                            positions = [MulPiDiv180 (Strtof ''90''), MulPiDiv180 (Strtof ''-90'')]\<rparr>,
            kf_stiffnesses = \<lparr>s_indexes = [0, 1], stiffnesses = [Strtof ''0.5'', Strtof ''0.7'']\<rparr>\<rparr>]\<rparr>
       None \<and>
   parse sym_ops nao_joints ([stiff_head] @ [pos_90_300]) =
     Returned \<lparr>successful = False, keyFrames = []\<rparr> (Some StiffnessPositionMismatch)"
proof -
  have line: "is_position pos_90_300" "length (split pos_90_300) = nao_joints + 2"
    "line_convertible sym_ops nao_joints pos_90_300" "has_duration pos_90_300"
    by (simp_all add: spec_eval example_lines)
  have pending: "pending_stiffness_lines [stiff_head, stiff_neck] = [stiff_head, stiff_neck]"
    "pending_stiffness_lines [stiff_head] = [stiff_head]"
    by (simp_all add: spec_eval example_lines)
  have none: "position_lines [stiff_head, stiff_neck] = []" "position_lines [stiff_head] = []"
    by (simp_all add: spec_eval example_lines)
  have vals: "line_values sym_ops nao_joints stiff_head = [Strtof ''0.5'']"
    "line_values sym_ops nao_joints stiff_neck = [Strtof ''0.7'']"
    "line_positions sym_ops nao_joints pos_90_300 =
       \<lparr>p_indexes = [0, 1], positions = [MulPiDiv180 (Strtof ''90''), MulPiDiv180 (Strtof ''-90'')]\<rparr>"
    "duration_of pos_90_300 = 300"
    by (simp_all add: spec_eval example_lines)
  have a: "parse sym_ops nao_joints ([stiff_head, stiff_neck] @ [pos_90_300]) =
     Returned
       \<lparr>successful = True,
        keyFrames =
          [\<lparr>absolute_time = 300,
            kf_positions = \<lparr>p_indexes = [0, 1],
                            positions = [MulPiDiv180 (Strtof ''90''), MulPiDiv180 (Strtof ''-90'')]\<rparr>,
            kf_stiffnesses = \<lparr>s_indexes = [0, 1], stiffnesses = [Strtof ''0.5'', Strtof ''0.7'']\<rparr>\<rparr>]\<rparr>
       None"
    using custom_stiffness_must_match [OF parse_stiffness_lines(1) _ _ line(1,2,3) _ line(4)]
    by (simp add: pending none vals line_indexes_examples durations_def)
  have b: "parse sym_ops nao_joints ([stiff_head] @ [pos_90_300]) =
     Returned \<lparr>successful = False, keyFrames = []\<rparr> (Some StiffnessPositionMismatch)"
    using custom_stiffness_must_match [OF parse_stiffness_lines(2) _ _ line(1,2,3) _ line(4)]
    by (simp add: pending none vals line_indexes_examples durations_def)
  from a b show ?thesis ..
qed

text \<open>
  C8. A position directive that is processed with no stiffness directive pending emits a key
  frame whose stiffness indexes are the position indexes of the line, in the same order, each
  with the stiffness 1.0.
\<close>

theorem implicit_full_stiffness:
  assumes "parse ops nj pre = Returned r e" and "successful r"
    and none: "pending_stiffness_lines pre = []"
    and line: "is_position line"
    and after: "parse ops nj (pre @ [line]) = Returned r' e'" "successful r'"
  shows "keyFrames r' = keyFrames r @ [last (keyFrames r')] \<and>
         p_indexes (kf_positions (last (keyFrames r'))) = line_indexes nj line \<and>
         s_indexes (kf_stiffnesses (last (keyFrames r'))) = line_indexes nj line \<and>
         stiffnesses (kf_stiffnesses (last (keyFrames r'))) =
           replicate (length (line_indexes nj line)) (float_one ops)"
proof -
  from assms(1,2) obtain st where run: "for_each_line ops nj pre init_state = Inr st"
    and r: "r = \<lparr>successful = True, keyFrames = parseResult_keyFrames st\<rparr>"
    using parse_success_iff [of ops nj pre r e] by auto
  from after obtain st' where run': "for_each_line ops nj (pre @ [line]) init_state = Inr st'"
    and r': "r' = \<lparr>successful = True, keyFrames = parseResult_keyFrames st'\<rparr>"
    using parse_success_iff [of ops nj "pre @ [line]" r' e'] by auto
  from run run' have "parse_line ops nj line st = Inr st'"
    by (auto simp: for_each_line_snoc_Inr)
  with line have "position_line ops nj line st = Inr st'"
    by (auto simp: parse_line_Inr dest: not_both)
  then have st': "st' = after_position ops nj line st"
    by (simp add: position_line_Inr)
  note st = run_state [OF run]
  from st(2,3,4) none have "\<not> customStiffnesses st" "s_indexes (jointStiffnesses st) = []"
    "stiffnesses (jointStiffnesses st) = []"
    by simp_all
  then show ?thesis
    by (simp add: r r' st' emitted_key_frame_def line_positions_def)
qed

theorem implicit_full_stiffness_witness:
  "parse sym_ops nao_joints ([comment_line] @ [pos_90_300]) =
     Returned \<lparr>successful = True, keyFrames = [kf_two_joints 300 ''90'' ''-90'']\<rparr> None \<and>
   pending_stiffness_lines [comment_line] = [] \<and>
   line_indexes nao_joints pos_90_300 = [0, 1] \<and>
   s_indexes (kf_stiffnesses (kf_two_joints 300 ''90'' ''-90'')) = [0, 1] \<and>
   stiffnesses (kf_stiffnesses (kf_two_joints 300 ''90'' ''-90'')) = [OnePointZero, OnePointZero]"
proof -
  have none: "pending_stiffness_lines [comment_line] = []"
    by (simp add: spec_eval example_lines)
  have line: "is_position pos_90_300"
    by (simp add: spec_eval example_lines)
  have after: "parse sym_ops nao_joints ([comment_line] @ [pos_90_300]) =
     Returned \<lparr>successful = True, keyFrames = [kf_two_joints 300 ''90'' ''-90'']\<rparr> None"
    using parse_comment_300 by simp
  from implicit_full_stiffness [OF parse_comment _ none line after] after
  show ?thesis
    by (simp add: none line_indexes_examples numeral_2_eq_2 sym_ops_def)
qed

text \<open>
  The positions of the key frame are the values of the fields that are set, each converted
  by \<open>deg_to_rad\<close>; the example of a line that sets the joints 0 and 1 to 90 and -90 degrees
  with the duration 500.
\<close>

lemma position_values_in_radians:
  assumes "parse ops nj pre = Returned r e" and "successful r"
    and "is_position line"
    and "parse ops nj (pre @ [line]) = Returned r' e'" and "successful r'"
  shows "kf_positions (last (keyFrames r')) =
           \<lparr>p_indexes = line_indexes nj line,
            positions = map (deg_to_rad ops) (line_values ops nj line)\<rparr>"
proof -
  from assms(1,2) obtain st where run: "for_each_line ops nj pre init_state = Inr st"
    using parse_success_iff [of ops nj pre r e] by auto
  from assms(4,5) obtain st' where run': "for_each_line ops nj (pre @ [line]) init_state = Inr st'"
    and r': "r' = \<lparr>successful = True, keyFrames = parseResult_keyFrames st'\<rparr>"
    using parse_success_iff [of ops nj "pre @ [line]" r' e'] by auto
  from run run' have "parse_line ops nj line st = Inr st'"
    by (auto simp: for_each_line_snoc_Inr)
  with assms(3) have "position_line ops nj line st = Inr st'"
    by (auto simp: parse_line_Inr dest: not_both)
  then have "st' = after_position ops nj line st"
    by (simp add: position_line_Inr)
  then show ?thesis
    by (simp add: r' line_positions_def)
qed

lemma single_position_line_example:
  "parse sym_ops nao_joints [pos_90_500] =
     Returned \<lparr>successful = True, keyFrames = [kf_two_joints 500 ''90'' ''-90'']\<rparr> None"
  by (simp add: parse_eval example_lines pos_90_500_def)

subsection \<open>Number of key frames\<close>

text \<open>
  C10. On every successful parse the number of key frames is the number of input lines whose
  first character is \<open>!\<close>; and a well-formed stiffness directive at the end of such an input
  changes neither the result nor its success.
\<close>

theorem one_key_frame_per_position_line:
  assumes "parse ops nj inp = Returned r e" and "successful r"
  shows "length (keyFrames r) = length (filter (\<lambda>l. front l = Some CHR ''!'') inp) \<and>
         (is_stiffness l \<and> length (split l) = nj + 1 \<and> line_convertible ops nj l \<longrightarrow>
            parse ops nj (inp @ [l]) = Returned r e)"
proof -
  from assms(1,2) obtain st where run: "for_each_line ops nj inp init_state = Inr st"
    and r: "r = \<lparr>successful = True, keyFrames = parseResult_keyFrames st\<rparr>" and e: "e = None"
    using parse_success_iff [of ops nj inp r e] by auto
  have "length (map kf_positions (parseResult_keyFrames st)) = length (position_lines inp)"
    by (simp only: run_state(7) [OF run] length_map)
  then have count: "length (keyFrames r) = length (filter (\<lambda>l. front l = Some CHR ''!'') inp)"
    by (simp add: r position_lines_def is_position_def [abs_def])
  have "parse ops nj (inp @ [l]) = Returned r e"
    if a: "is_stiffness l \<and> length (split l) = nj + 1 \<and> line_convertible ops nj l"
  proof -
    from a have "parse_line ops nj l st = stiffness_line ops nj l st"
      by (auto simp: parse_line_def is_stiffness_def)
    moreover from a obtain st' where "stiffness_line ops nj l st = Inr st'"
      and "parseResult_keyFrames st' = parseResult_keyFrames st"
      by (auto simp: stiffness_line_Inr)
    ultimately show ?thesis
      using parse_snoc_success [OF run, of l st'] by (simp add: r e)
  qed
  with count show ?thesis by blast
qed

theorem one_key_frame_per_position_line_witness:
  "length [kf_two_joints 300 ''90'' ''-90''] =
     length (filter (\<lambda>l. front l = Some CHR ''!'') [comment_line, pos_90_300]) \<and>
   parse sym_ops nao_joints ([comment_line, pos_90_300] @ [stiff_head]) =
     Returned \<lparr>successful = True, keyFrames = [kf_two_joints 300 ''90'' ''-90'']\<rparr> None"
proof -
  have l: "is_stiffness stiff_head \<and> length (split stiff_head) = nao_joints + 1 \<and>
           line_convertible sym_ops nao_joints stiff_head"
    by (simp add: spec_eval example_lines)
  from one_key_frame_per_position_line [OF parse_comment_300, of stiff_head] l
  show ?thesis by simp
qed

end
